theory Spec2Isabelle
  imports Complex_Main "HOL-Library.Multiset"
begin

section \<open>Text primitives of the Python runtime\<close>

text \<open>
  Operation texts are Python \<open>str\<close> values. They are modelled as \<open>string\<close>, a list
  of characters with the code points 0 to 255 (Latin-1); on such text the functions below
  compute what \<open>str.lower\<close>, \<open>str.strip\<close>, \<open>str.split\<close>, the \<open>in\<close> operator and the
  \<open>re\<close> module compute on \<open>str\<close> patterns. The character tables are those of the Unicode
  database for these code points: \<open>digit7 c\<close> holds iff the code point of \<open>c\<close> is 128 or
  more.
\<close>

definition upper_letters :: string where
  "upper_letters = ''ABCDEFGHIJKLMNOPQRSTUVWXYZ''"

definition lower_letters :: string where
  "lower_letters = ''abcdefghijklmnopqrstuvwxyz''"

definition digit_chars :: string where
  "digit_chars = ''0123456789''"

definition code_point :: "char \<Rightarrow> nat" where
  "code_point c = of_char c"

text \<open>The upper-case letters beyond ASCII are U+00C0 to U+00DE without the multiplication
  sign U+00D7; each has its lower-case letter 32 places further.\<close>

definition latin1_upper :: "char \<Rightarrow> bool" where
  "latin1_upper c = (0xC0 \<le> code_point c \<and> code_point c \<le> 0xDE \<and> code_point c \<noteq> 0xD7)"

definition lower_char :: "char \<Rightarrow> char" where
  "lower_char c =
     (if digit7 c then (if latin1_upper c then char_of (code_point c + 0x20) else c)
      else (case map_of (zip upper_letters lower_letters) c of None \<Rightarrow> c | Some d \<Rightarrow> d))"

definition lower :: "string \<Rightarrow> string" where
  "lower s = map lower_char s"

text \<open>The characters for which \<open>str.isspace\<close> holds; \<open>\s\<close>, \<open>strip\<close> and \<open>split\<close> use
  the same set. U+0085 is the next-line control and U+00A0 the no-break space.\<close>

definition space_chars :: string where
  "space_chars = [CHR 0x09, CHR 0x0A, CHR 0x0B, CHR 0x0C, CHR 0x0D,
                  CHR 0x1C, CHR 0x1D, CHR 0x1E, CHR 0x1F, CHR 0x20,
                  CHR 0x85, CHR 0xA0]"

definition is_space :: "char \<Rightarrow> bool" where
  "is_space c = (c \<in> set space_chars)"

definition is_digit :: "char \<Rightarrow> bool" where
  "is_digit c = (c \<in> set digit_chars)"

text \<open>The alphanumeric characters beyond ASCII: the ordinal indicators and the micro sign,
  the superscript digits, the vulgar fractions, and the letters U+00C0 to U+00FF without
  the multiplication and division signs.\<close>

definition latin1_alnum :: "char \<Rightarrow> bool" where
  "latin1_alnum c =
     (code_point c \<in> set [0xAA, 0xB2, 0xB3, 0xB5, 0xB9, 0xBA, 0xBC, 0xBD, 0xBE] \<or>
      (0xC0 \<le> code_point c \<and> code_point c \<noteq> 0xD7 \<and> code_point c \<noteq> 0xF7))"

text \<open>\<open>\w\<close>: an alphanumeric character or the underscore.\<close>

definition is_word :: "char \<Rightarrow> bool" where
  "is_word c =
     (if digit7 c then latin1_alnum c
      else (c \<in> set lower_letters \<or> c \<in> set upper_letters \<or> c \<in> set digit_chars \<or> c = CHR ''_''))"

definition strip :: "string \<Rightarrow> string" where
  "strip s = rev (dropWhile is_space (rev (dropWhile is_space s)))"

text \<open>\<open>needle in hay\<close> on Python strings.\<close>

fun starts_with :: "string \<Rightarrow> string \<Rightarrow> bool" where
  "starts_with [] hay = True"
| "starts_with (n # ns) [] = False"
| "starts_with (n # ns) (h # hs) = (if n = h then starts_with ns hs else False)"

fun contains :: "string \<Rightarrow> string \<Rightarrow> bool" where
  "contains needle [] = (needle = [])"
| "contains needle (h # hs) = (if starts_with needle (h # hs) then True else contains needle hs)"

text \<open>\<open>any(kw in text for kw in keywords)\<close>.\<close>

definition any_keyword_in :: "string list \<Rightarrow> string \<Rightarrow> bool" where
  "any_keyword_in keywords text = list_ex (\<lambda>kw. contains kw text) keywords"

text \<open>\<open>str.split()\<close> without arguments: the maximal runs of non-whitespace.\<close>

fun split_ws_aux :: "string \<Rightarrow> string \<Rightarrow> string list" where
  "split_ws_aux cur [] = (if cur = [] then [] else [rev cur])"
| "split_ws_aux cur (c # cs) =
     (if is_space c then (if cur = [] then split_ws_aux [] cs else rev cur # split_ws_aux [] cs)
      else split_ws_aux (c # cur) cs)"

definition split_ws :: "string \<Rightarrow> string list" where
  "split_ws s = split_ws_aux [] s"

text \<open>\<open>sep.join(parts)\<close>.\<close>

fun join :: "string \<Rightarrow> string list \<Rightarrow> string" where
  "join sep [] = []"
| "join sep [p] = p"
| "join sep (p # q # ps) = p @ sep @ join sep (q # ps)"


section \<open>Regular expressions as used by the pattern library\<close>

text \<open>
  The patterns of \<open>patterns.py\<close> use literals, \<open>.\<close>, \<open>\s\<close>, \<open>\w\<close>, \<open>\d\<close>,
  bracket sets, \<open>\b\<close>, \<open>$\<close>, grouping, alternation, \<open>*\<close>, \<open>+\<close> and \<open>?\<close>,
  all compiled with \<open>re.IGNORECASE\<close>. \<open>pattern.search(text)\<close> succeeds iff some
  substring of the text, taken at its place in the text, belongs to the language of the
  pattern; backtracking order only selects which match is reported.
\<close>

datatype regex =
    Eps
  | Chr char
  | Dot
  | Space
  | Word
  | Digit
  | OneOf string
  | WordB
  | Eol
  | Seq regex regex
  | Alt regex regex
  | Star regex
  | Plus regex
  | Opt regex

definition lit :: "string \<Rightarrow> regex" where
  "lit s = foldr (\<lambda>c r. Seq (Chr c) r) s Eps"

definition seqs :: "regex list \<Rightarrow> regex" where
  "seqs rs = foldr Seq rs Eps"

fun alts :: "regex list \<Rightarrow> regex" where
  "alts [] = Eps"
| "alts [r] = r"
| "alts (r # rs) = Alt r (alts rs)"

text \<open>
  A set of positions \<open>0..n\<close> of a text of length \<open>n\<close> is a list of \<open>n + 1\<close>
  booleans. \<open>advance\<close> maps the set of positions where a match of \<open>r\<close> may start to
  the set of positions where it may end.
\<close>

fun shift_aux :: "(char \<Rightarrow> bool) \<Rightarrow> string \<Rightarrow> bool list \<Rightarrow> bool list" where
  "shift_aux p (c # cs) (b # bs) = (if b then p c else False) # shift_aux p cs bs"
| "shift_aux p [] bs = []"
| "shift_aux p cs [] = []"

definition shift :: "(char \<Rightarrow> bool) \<Rightarrow> string \<Rightarrow> bool list \<Rightarrow> bool list" where
  "shift p t S = False # shift_aux p t S"

fun mask_or :: "bool list \<Rightarrow> bool list \<Rightarrow> bool list" where
  "mask_or (a # as) (b # bs) = (if a then True else b) # mask_or as bs"
| "mask_or [] bs = []"
| "mask_or as [] = []"

fun mask_and :: "bool list \<Rightarrow> bool list \<Rightarrow> bool list" where
  "mask_and (a # as) (b # bs) = (if a then b else False) # mask_and as bs"
| "mask_and [] bs = []"
| "mask_and as [] = []"

text \<open>\<open>\b\<close>: the characters on the two sides differ in being word characters; outside
  the text counts as a non-word character.\<close>

fun boundary_aux :: "bool \<Rightarrow> string \<Rightarrow> bool list" where
  "boundary_aux prev [] = [prev]"
| "boundary_aux prev (c # cs) = (prev \<noteq> is_word c) # boundary_aux (is_word c) cs"

definition boundary_mask :: "string \<Rightarrow> bool list" where
  "boundary_mask t = boundary_aux False t"

text \<open>\<open>$\<close> without \<open>re.MULTILINE\<close>: the end of the text, or just before a newline
  that ends the text.\<close>

fun eol_mask :: "string \<Rightarrow> bool list" where
  "eol_mask [] = [True]"
| "eol_mask [c] = [c = CHR 0x0A, True]"
| "eol_mask (c # d # cs) = False # eol_mask (d # cs)"

text \<open>The closure of \<open>S\<close> under \<open>f\<close>; each round that changes the set adds a position, so
  one round per character of the text reaches the fixed point.\<close>

fun star_closure :: "(bool list \<Rightarrow> bool list) \<Rightarrow> string \<Rightarrow> bool list \<Rightarrow> bool list" where
  "star_closure f [] S = S"
| "star_closure f (c # cs) S = (let S' = mask_or S (f S) in if S' = S then S else star_closure f cs S')"

definition lit_match :: "char \<Rightarrow> char \<Rightarrow> bool" where
  "lit_match c d = (lower_char c = lower_char d)"

primrec advance :: "regex \<Rightarrow> string \<Rightarrow> bool list \<Rightarrow> bool list" where
  "advance Eps t S = S"
| "advance (Chr c) t S = shift (lit_match c) t S"
| "advance Dot t S = shift (\<lambda>d. d \<noteq> CHR 0x0A) t S"
| "advance Space t S = shift is_space t S"
| "advance Word t S = shift is_word t S"
| "advance Digit t S = shift is_digit t S"
| "advance (OneOf cs) t S = shift (\<lambda>d. list_ex (\<lambda>c. lit_match c d) cs) t S"
| "advance WordB t S = mask_and S (boundary_mask t)"
| "advance Eol t S = mask_and S (eol_mask t)"
| "advance (Seq r1 r2) t S = advance r2 t (advance r1 t S)"
| "advance (Alt r1 r2) t S = mask_or (advance r1 t S) (advance r2 t S)"
| "advance (Star r) t S = star_closure (advance r t) t S"
| "advance (Plus r) t S = star_closure (advance r t) t (advance r t S)"
| "advance (Opt r) t S = mask_or S (advance r t S)"

text \<open>\<open>pattern.search(text) is not None\<close>: a match may start at any position.\<close>

definition re_search :: "regex \<Rightarrow> string \<Rightarrow> bool" where
  "re_search r t = list_ex (\<lambda>b. b) (advance r t (True # map (\<lambda>c. True) t))"

section \<open>Pattern library (\<open>classification/patterns.py\<close>)\<close>

definition dot_star :: regex where
  "dot_star = Star Dot"

definition spaces1 :: regex where
  "spaces1 = Plus Space"

definition yaml_json_toml :: regex where
  "yaml_json_toml = alts [seqs [Chr CHR ''y'', Opt (Chr CHR ''a''), lit ''ml''], lit ''json'', lit ''toml'']"

definition yaml_ext :: regex where
  "yaml_ext = seqs [Chr CHR ''y'', Opt (Chr CHR ''a''), lit ''ml'']"

definition script_exts :: regex where
  "script_exts = alts [lit ''sql'', lit ''py'', lit ''rb'', lit ''js'', lit ''ts'']"

definition http_verbs_lower :: regex where
  "http_verbs_lower = alts [lit ''get'', lit ''post'', lit ''put'', lit ''delete'', lit ''patch'']"

definition quote_set :: regex where
  "quote_set = OneOf [CHR 0x27, CHR 0x22]"

definition https_scheme :: regex where
  "https_scheme = seqs [lit ''http'', Opt (Chr CHR ''s''), lit ''://'']"

definition SENSITIVE_FILE_PATTERNS :: "regex list" where
  "SENSITIVE_FILE_PATTERNS = [
     seqs [lit ''.env'', Alt Eol (Seq (Chr CHR ''.'') dot_star)],
     lit ''.env.local'',
     lit ''.env.production'',
     seqs [lit ''secret'', Opt (Chr CHR ''s''), Chr CHR ''.'', yaml_json_toml],
     seqs [lit ''credential'', Opt (Chr CHR ''s''), Chr CHR ''.'', yaml_json_toml],
     seqs [lit ''config.prod'', Opt (lit ''uction''), Chr CHR ''.'', yaml_json_toml],
     seqs [dot_star, lit ''.pem'', Eol],
     seqs [dot_star, lit ''.key'', Eol],
     seqs [dot_star, lit ''.p12'', Eol],
     seqs [dot_star, lit ''.pfx'', Eol],
     seqs [lit ''id_rsa'', dot_star],
     seqs [lit ''id_ed25519'', dot_star],
     seqs [dot_star, lit ''_rsa'', Eol],
     lit ''.aws/credentials'',
     lit ''.aws/config'',
     seqs [lit ''gcloud'', dot_star, lit ''.json''],
     seqs [lit ''service'', Opt (OneOf ''-_''), lit ''account'', dot_star, lit ''.json''],
     seqs [dot_star, lit ''password'', dot_star],
     seqs [dot_star, lit ''token'', dot_star, lit ''.txt''],
     lit ''.netrc'',
     lit ''.npmrc'',
     lit ''.pypirc'',
     seqs [lit ''database.'', yaml_ext],
     seqs [lit ''db.config.'', alts [lit ''js'', lit ''ts'', lit ''json'']],
     seqs [dot_star, lit ''secret'', dot_star, Chr CHR ''.'', yaml_ext]
   ]"

definition DATABASE_PATTERNS :: "regex list" where
  "DATABASE_PATTERNS = [
     seqs [dot_star, lit ''.sql'', Eol],
     seqs [dot_star, lit ''.db'', Eol],
     seqs [dot_star, lit ''.sqlite'', Opt (Chr CHR ''3''), Eol],
     seqs [dot_star, lit ''.mdb'', Eol],
     seqs [alts [lit ''postgres'', lit ''postgresql'', lit ''mysql'', lit ''mongodb'',
                 lit ''redis'', lit ''sqlite''], lit ''://''],
     seqs [alts [lit ''DROP'', lit ''TRUNCATE'', lit ''ALTER''], spaces1,
           alts [lit ''TABLE'', lit ''DATABASE'', lit ''SCHEMA'']],
     seqs [lit ''DELETE'', spaces1, lit ''FROM'', spaces1, Plus Word],
     seqs [alts [lit ''INSERT'', lit ''UPDATE''], spaces1, lit ''INTO''],
     seqs [lit ''SELECT'', spaces1, dot_star, spaces1, lit ''FROM'', spaces1, Plus Word],
     seqs [lit ''migration'', Opt (Chr CHR ''s''), Chr CHR ''/'', dot_star, Chr CHR ''.'', script_exts],
     seqs [dot_star, lit ''migration'', dot_star, Chr CHR ''.'', script_exts]
   ]"

definition API_PATTERNS :: "regex list" where
  "API_PATTERNS = [
     seqs [alts [lit ''GET'', lit ''POST'', lit ''PUT'', lit ''DELETE'', lit ''PATCH''], spaces1,
           https_scheme],
     seqs [lit ''fetch'', Star Space, Chr CHR ''('', Star Space, quote_set, https_scheme],
     seqs [lit ''axios.'', http_verbs_lower],
     seqs [lit ''request'', Opt (Chr CHR ''s''), Chr CHR ''.'', http_verbs_lower],
     lit ''http.request'',
     seqs [lit ''curl'', spaces1],
     seqs [lit ''/api/v'', Plus Digit, Chr CHR ''/''],
     seqs [lit ''api.'', dot_star, lit ''.com''],
     lit ''graphql'',
     lit ''webhook''
   ]"

definition SYSTEM_COMMAND_PATTERNS :: "regex list" where
  "SYSTEM_COMMAND_PATTERNS = [
     seqs [WordB, lit ''rm'', spaces1, lit ''-r'', Opt (Chr CHR ''f''), WordB],
     seqs [WordB, lit ''rmdir'', WordB],
     seqs [WordB, lit ''del'', spaces1, Chr CHR ''/'', OneOf ''sfq''],
     seqs [WordB, lit ''chmod'', WordB],
     seqs [WordB, lit ''chown'', WordB],
     seqs [WordB, lit ''sudo'', WordB],
     seqs [WordB, lit ''su'', spaces1, Chr CHR ''-''],
     seqs [WordB, alts [lit ''apt'', lit ''yum'', lit ''dnf'', lit ''pacman'', lit ''brew''], spaces1,
           alts [lit ''install'', lit ''remove'', lit ''purge'']],
     seqs [WordB, lit ''pip'', spaces1, lit ''install'', WordB],
     seqs [WordB, lit ''npm'', spaces1, alts [lit ''install'', lit ''uninstall''], spaces1, lit ''-g''],
     seqs [WordB, lit ''kill'', spaces1, Chr CHR ''-'', Opt (Chr CHR ''9''), WordB],
     seqs [WordB, lit ''killall'', WordB],
     seqs [WordB, lit ''systemctl'', spaces1, alts [lit ''stop'', lit ''restart'', lit ''disable'']],
     seqs [WordB, lit ''iptables'', WordB],
     seqs [WordB, lit ''netstat'', WordB],
     seqs [WordB, lit ''ssh'', WordB, dot_star, Chr CHR ''@'']
   ]"

definition READ_ONLY_PATTERNS :: "regex list" where
  "READ_ONLY_PATTERNS = [
     seqs [WordB, lit ''cat'', spaces1],
     seqs [WordB, lit ''less'', spaces1],
     seqs [WordB, lit ''head'', spaces1],
     seqs [WordB, lit ''tail'', spaces1],
     seqs [WordB, lit ''grep'', spaces1],
     seqs [WordB, lit ''find'', spaces1],
     seqs [WordB, lit ''ls'', spaces1],
     seqs [WordB, lit ''pwd'', WordB],
     seqs [WordB, lit ''whoami'', WordB],
     seqs [lit ''SELECT'', spaces1, dot_star, spaces1, lit ''FROM''],
     lit ''.read('',
     seqs [lit ''open('', dot_star, Chr CHR '','', Star Space, quote_set, Chr CHR ''r'', quote_set]
   ]"

definition matches_any_pattern :: "string \<Rightarrow> regex list \<Rightarrow> bool" where
  "matches_any_pattern text patterns = list_ex (\<lambda>pattern. re_search pattern text) patterns"


section \<open>Resource classifier (\<open>classification/resource_classifier.py\<close>)\<close>

datatype ResourceType = MEMORY | LOCAL_FILE | EXTERNAL_API | SENSITIVE_FILE | DATABASE | SYSTEM_COMMAND

fun RESOURCE_RISK_SCORES :: "ResourceType \<Rightarrow> rat" where
  "RESOURCE_RISK_SCORES MEMORY = 0"
| "RESOURCE_RISK_SCORES LOCAL_FILE = 1"
| "RESOURCE_RISK_SCORES EXTERNAL_API = 2"
| "RESOURCE_RISK_SCORES SENSITIVE_FILE = 3"
| "RESOURCE_RISK_SCORES DATABASE = 4"
| "RESOURCE_RISK_SCORES SYSTEM_COMMAND = 5"

definition file_indicators :: "string list" where
  "file_indicators = [
     ''.txt'', ''.json'', ''.yaml'', ''.yml'', ''.xml'', ''.csv'',
     ''.py'', ''.js'', ''.ts'', ''.java'', ''.go'', ''.rs'', ''.rb'',
     ''.md'', ''.html'', ''.css'', ''.sh'', ''.bash'',
     ''/'', [CHR 0x5C], ''path'', ''file'', ''directory'', ''folder'',
     ''read'', ''write'', ''save'', ''load'', ''open'', ''create'',
     ''delete'', ''remove'', ''copy'', ''move'', ''rename'']"

definition is_file_operation :: "string \<Rightarrow> bool" where
  "is_file_operation text = any_keyword_in file_indicators (lower text)"

text \<open>\<open>f"{operation} {context}"\<close>\<close>

definition combine :: "string \<Rightarrow> string \<Rightarrow> string" where
  "combine operation context = operation @ '' '' @ context"

definition classify :: "string \<Rightarrow> string \<Rightarrow> ResourceType \<times> rat" where
  "classify operation context =
     (let combined = strip (combine operation context) in
      if matches_any_pattern combined SYSTEM_COMMAND_PATTERNS
        then (SYSTEM_COMMAND, RESOURCE_RISK_SCORES SYSTEM_COMMAND)
      else if matches_any_pattern combined DATABASE_PATTERNS
        then (DATABASE, RESOURCE_RISK_SCORES DATABASE)
      else if matches_any_pattern combined SENSITIVE_FILE_PATTERNS
        then (SENSITIVE_FILE, RESOURCE_RISK_SCORES SENSITIVE_FILE)
      else if matches_any_pattern combined API_PATTERNS
        then (EXTERNAL_API, RESOURCE_RISK_SCORES EXTERNAL_API)
      else if is_file_operation combined
        then (LOCAL_FILE, RESOURCE_RISK_SCORES LOCAL_FILE)
      else (MEMORY, RESOURCE_RISK_SCORES MEMORY))"

fun get_resource_description :: "ResourceType \<Rightarrow> string" where
  "get_resource_description MEMORY = ''In-memory operation with no persistent side effects''"
| "get_resource_description LOCAL_FILE = ''Local file system access''"
| "get_resource_description EXTERNAL_API = ''External API or network operation''"
| "get_resource_description SENSITIVE_FILE = ''Sensitive file containing credentials or secrets''"
| "get_resource_description DATABASE = ''Database operation''"
| "get_resource_description SYSTEM_COMMAND = ''System-level command execution''"


section \<open>Action and scope classifier (\<open>classification/action_classifier.py\<close>)\<close>

datatype ActionType = READ | WRITE | DELETE | EXECUTE

datatype ScopeType = SINGLE | MULTIPLE | COLLECTION | SYSTEM

text \<open>The multipliers are the floats 0.5, 1.5, 2.5, 3.0 and 1.0, 1.5, 2.0, 3.0. They and
  every product of a base score with two of them are binary fractions with few digits, so
  the floating-point products of the source are exact and equal the rational products.\<close>

fun ACTION_MULTIPLIERS :: "ActionType \<Rightarrow> rat" where
  "ACTION_MULTIPLIERS READ = 1 / 2"
| "ACTION_MULTIPLIERS WRITE = 3 / 2"
| "ACTION_MULTIPLIERS DELETE = 5 / 2"
| "ACTION_MULTIPLIERS EXECUTE = 3"

fun SCOPE_MULTIPLIERS :: "ScopeType \<Rightarrow> rat" where
  "SCOPE_MULTIPLIERS SINGLE = 1"
| "SCOPE_MULTIPLIERS MULTIPLE = 3 / 2"
| "SCOPE_MULTIPLIERS COLLECTION = 2"
| "SCOPE_MULTIPLIERS SYSTEM = 3"

definition READ_KEYWORDS :: "string list" where
  "READ_KEYWORDS = [
     ''read'', ''get'', ''fetch'', ''retrieve'', ''view'', ''show'', ''display'',
     ''list'', ''find'', ''search'', ''query'', ''select'', ''look'', ''check'',
     ''inspect'', ''examine'', ''browse'', ''scan'', ''cat'', ''head'', ''tail'',
     ''grep'', ''ls'', ''dir'', ''print'', ''echo'', ''describe'', ''status'']"

definition WRITE_KEYWORDS :: "string list" where
  "WRITE_KEYWORDS = [
     ''write'', ''create'', ''add'', ''insert'', ''update'', ''modify'', ''change'',
     ''edit'', ''set'', ''put'', ''post'', ''patch'', ''save'', ''store'', ''upload'',
     ''append'', ''replace'', ''overwrite'', ''touch'', ''mkdir'', ''install'',
     ''configure'', ''enable'', ''init'', ''generate'', ''build'', ''compile'']"

definition DELETE_KEYWORDS :: "string list" where
  "DELETE_KEYWORDS = [
     ''delete'', ''remove'', ''drop'', ''truncate'', ''clear'', ''purge'', ''clean'',
     ''uninstall'', ''destroy'', ''erase'', ''wipe'', ''rm'', ''rmdir'', ''del'',
     ''unlink'', ''reset'', ''revoke'', ''disable'', ''expire'', ''invalidate'']"

definition EXECUTE_KEYWORDS :: "string list" where
  "EXECUTE_KEYWORDS = [
     ''execute'', ''run'', ''start'', ''launch'', ''invoke'', ''call'', ''trigger'',
     ''deploy'', ''apply'', ''migrate'', ''push'', ''publish'', ''release'', ''ship'',
     ''sudo'', ''exec'', ''spawn'', ''fork'', ''eval'', ''script'', ''command'',
     ''restart'', ''reboot'', ''shutdown'', ''kill'', ''stop'', ''terminate'']"

definition MULTIPLE_KEYWORDS :: "string list" where
  "MULTIPLE_KEYWORDS = [
     ''multiple'', ''several'', ''some'', ''few'', ''many'', ''these'', ''those'',
     ''batch'', ''group'', ''set'', ''list'', ''array'']"

definition COLLECTION_KEYWORDS :: "string list" where
  "COLLECTION_KEYWORDS = [
     ''all'', ''every'', ''each'', ''entire'', ''whole'', ''complete'', ''full'',
     ''collection'', ''table'', ''directory'', ''folder'', ''repository'',
     ''database'', ''schema'', ''namespace'', ''bucket'', ''queue'']"

definition SYSTEM_KEYWORDS :: "string list" where
  "SYSTEM_KEYWORDS = [
     ''system'', ''global'', ''server'', ''cluster'', ''infrastructure'',
     ''environment'', ''production'', ''staging'', ''network'', ''service'',
     ''platform'', ''organization'', ''account'', ''root'', ''admin'']"

definition classify_action :: "string \<Rightarrow> ActionType \<times> rat" where
  "classify_action operation =
     (let operation_lower = lower operation in
      if matches_any_pattern operation READ_ONLY_PATTERNS
        then (READ, ACTION_MULTIPLIERS READ)
      else if any_keyword_in EXECUTE_KEYWORDS operation_lower
        then (EXECUTE, ACTION_MULTIPLIERS EXECUTE)
      else if any_keyword_in DELETE_KEYWORDS operation_lower
        then (DELETE, ACTION_MULTIPLIERS DELETE)
      else if any_keyword_in WRITE_KEYWORDS operation_lower
        then (WRITE, ACTION_MULTIPLIERS WRITE)
      else if any_keyword_in READ_KEYWORDS operation_lower
        then (READ, ACTION_MULTIPLIERS READ)
      else (WRITE, ACTION_MULTIPLIERS WRITE))"

definition classify_scope :: "string \<Rightarrow> string \<Rightarrow> ScopeType \<times> rat" where
  "classify_scope operation context =
     (let combined = lower (combine operation context) in
      if any_keyword_in SYSTEM_KEYWORDS combined
        then (SYSTEM, SCOPE_MULTIPLIERS SYSTEM)
      else if any_keyword_in COLLECTION_KEYWORDS combined
        then (COLLECTION, SCOPE_MULTIPLIERS COLLECTION)
      else if any_keyword_in MULTIPLE_KEYWORDS combined
        then (MULTIPLE, SCOPE_MULTIPLIERS MULTIPLE)
      else (SINGLE, SCOPE_MULTIPLIERS SINGLE))"

section \<open>Risk assessor (\<open>core/risk_assessment.py\<close>)\<close>

datatype RiskLevel = LOW | MEDIUM | HIGH

text \<open>The \<open>.value\<close> of the string-valued enumerations.\<close>

fun ResourceType_value :: "ResourceType \<Rightarrow> string" where
  "ResourceType_value MEMORY = ''memory''"
| "ResourceType_value LOCAL_FILE = ''local_file''"
| "ResourceType_value EXTERNAL_API = ''external_api''"
| "ResourceType_value SENSITIVE_FILE = ''sensitive_file''"
| "ResourceType_value DATABASE = ''database''"
| "ResourceType_value SYSTEM_COMMAND = ''system_command''"

fun ActionType_value :: "ActionType \<Rightarrow> string" where
  "ActionType_value READ = ''read''"
| "ActionType_value WRITE = ''write''"
| "ActionType_value DELETE = ''delete''"
| "ActionType_value EXECUTE = ''execute''"

fun ScopeType_value :: "ScopeType \<Rightarrow> string" where
  "ScopeType_value SINGLE = ''single''"
| "ScopeType_value MULTIPLE = ''multiple''"
| "ScopeType_value COLLECTION = ''collection''"
| "ScopeType_value SYSTEM = ''system''"

text \<open>
  The \<open>Assessment\<close> dataclass. Of the \<open>factors\<close> dictionary the three weights are
  kept; its \<open>calculation\<close> entry is a formatted float string and is not modelled. The
  identifier (a fresh UUID in the source) and the creation time are arguments.
\<close>

record Assessment =
  assessment_id :: string
  assessment_operation :: string
  assessment_description :: string
  resource_type :: string
  action_type :: string
  scope :: string
  risk_score :: rat
  risk_level :: RiskLevel
  factor_base_score :: rat
  factor_action_multiplier :: rat
  factor_scope_multiplier :: rat
  recommendations :: "string list"
  assessment_timestamp :: nat

definition LOW_THRESHOLD :: rat where
  "LOW_THRESHOLD = 3"

definition MEDIUM_THRESHOLD :: rat where
  "MEDIUM_THRESHOLD = 8"

definition calculate_risk_level :: "rat \<Rightarrow> RiskLevel" where
  "calculate_risk_level score =
     (if score < LOW_THRESHOLD then LOW
      else if score \<le> MEDIUM_THRESHOLD then MEDIUM
      else HIGH)"

fun action_verbs :: "ActionType \<Rightarrow> string" where
  "action_verbs READ = ''Reading''"
| "action_verbs WRITE = ''Writing/modifying''"
| "action_verbs DELETE = ''Deleting''"
| "action_verbs EXECUTE = ''Executing''"

definition generate_description :: "string \<Rightarrow> ActionType \<Rightarrow> string" where
  "generate_description operation action =
     action_verbs action @ '': '' @ take 100 operation @
       (if length operation > 100 then ''...'' else [])"

definition generate_recommendations ::
  "RiskLevel \<Rightarrow> ResourceType \<Rightarrow> ActionType \<Rightarrow> ScopeType \<Rightarrow> string list" where
  "generate_recommendations level resource action scp =
     (if level = LOW then [''Operation can proceed without additional approval'']
      else
        (if level = MEDIUM then
           [''User confirmation required before proceeding''] @
           (if resource = EXTERNAL_API then [''Verify API endpoint and credentials are correct''] else []) @
           (if action = WRITE then [''Consider creating a backup before modification''] else [])
         else []) @
        (if level = HIGH then
           [''Create a structured execution plan with step-by-step approval'',
            ''Document rollback procedures for each step''] @
           (if resource = DATABASE then
              [''Ensure database backup exists before proceeding'',
               ''Consider running in a transaction with rollback capability''] else []) @
           (if resource = SENSITIVE_FILE then
              [''Verify credential handling follows security best practices'',
               ''Ensure sensitive data is not logged or exposed''] else []) @
           (if resource = SYSTEM_COMMAND then
              [''Review command for unintended side effects'',
               ''Consider running in isolated/sandboxed environment first''] else []) @
           (if action = DELETE then
              [''Confirm deletion targets are correct'',
               ''Verify backup exists before deletion''] else []) @
           (if scp = SYSTEM then
              [''Assess impact on dependent systems'',
               ''Consider staged rollout if possible''] else [])
         else []))"

definition assess :: "string \<Rightarrow> nat \<Rightarrow> string \<Rightarrow> string \<Rightarrow> string \<Rightarrow> Assessment" where
  "assess new_id now operation description context =
     (let (resource, resource_score) = classify operation context;
          (action, action_multiplier) = classify_action operation;
          (scp, scope_multiplier) = classify_scope operation context;
          score = resource_score * action_multiplier * scope_multiplier;
          level = calculate_risk_level score
      in \<lparr> assessment_id = new_id,
           assessment_operation = operation,
           assessment_description =
             (if description \<noteq> [] then description else generate_description operation action),
           resource_type = ResourceType_value resource,
           action_type = ActionType_value action,
           scope = ScopeType_value scp,
           risk_score = score,
           risk_level = level,
           factor_base_score = resource_score,
           factor_action_multiplier = action_multiplier,
           factor_scope_multiplier = scope_multiplier,
           recommendations = generate_recommendations level resource action scp,
           assessment_timestamp = now \<rparr>)"


section \<open>Plan data model (\<open>state/models.py\<close>)\<close>

datatype StepStatus =
  STEP_PENDING | STEP_APPROVED | STEP_DENIED | STEP_EXECUTING | STEP_COMPLETED | STEP_FAILED | STEP_SKIPPED

datatype PlanStatus =
  DRAFT | AWAITING_APPROVAL | IN_PROGRESS | PLAN_COMPLETED | ABORTED | PLAN_FAILED

text \<open>Timestamps (\<open>datetime\<close> values) are natural numbers; an unset one is \<open>None\<close>.\<close>

record PlanStep =
  step_id :: string
  step_order :: nat
  step_description :: string
  step_operation :: string
  expected_outcome :: string
  rollback_action :: "string option"
  step_status :: StepStatus
  step_result :: "string option"
  step_error :: "string option"
  executed_at :: "nat option"

record Plan =
  plan_id :: string
  plan_name :: string
  plan_description :: string
  plan_assessment_id :: string
  steps :: "PlanStep list"
  plan_status :: PlanStatus
  current_step_index :: int
  created_at :: nat
  updated_at :: nat
  completed_at :: "nat option"

record Approval =
  approval_id :: string
  target_type :: string
  target_id :: string
  approved :: bool
  approval_reason :: "string option"
  conditions :: "string list"
  approved_by :: string
  approval_timestamp :: nat


section \<open>Deviation detector (\<open>core/deviation_detector.py\<close>)\<close>

datatype Severity = SEV_NONE | MINOR | MAJOR | CRITICAL

datatype FindingKind = OPERATION_DEVIATION | OUTCOME_DEVIATION

text \<open>
  A finding is the dictionary built by the two checks: \<open>type\<close>, \<open>deviation_type\<close>,
  the planned (or expected) and the actual text, and for an operation finding the
  similarity. The \<open>message\<close> of an operation finding formats the similarity as a
  percentage and is left out.
\<close>

record Finding =
  finding_type :: FindingKind
  deviation_type :: Severity
  finding_planned :: string
  finding_actual :: string
  similarity :: "rat option"

text \<open>A recommendation line is a fixed text or the formatted line
  \<open>Operation similarity: ...\<close>, kept as its number.\<close>

datatype Recommendation = Line string | SimilarityLine rat

record DeviationReport =
  report_step_id :: string
  has_deviation :: bool
  severity :: Severity
  deviations :: "Finding list"
  report_recommendations :: "Recommendation list"

definition normalize :: "string \<Rightarrow> string" where
  "normalize text = join '' '' (split_ws (lower text))"

text \<open>The word sets of \<open>_calculate_similarity\<close> are duplicate-free lists. The quotient of
  the two cardinalities is a float in the source; it is compared only with 0.9 and 0.7,
  and for texts of fewer than \<open>10^15\<close> words the rounded quotient and the exact one
  compare alike with these, so the quotient is a rational here.\<close>

definition calculate_similarity :: "string \<Rightarrow> string \<Rightarrow> rat" where
  "calculate_similarity text1 text2 =
     (let words1 = remdups (split_ws text1);
          words2 = remdups (split_ws text2)
      in if words1 = [] \<and> words2 = [] then 1
         else if words1 = [] \<or> words2 = [] then 0
         else let intersection = filter (\<lambda>w. w \<in> set words2) words1;
                  union = words1 @ filter (\<lambda>w. w \<notin> set words1) words2
              in of_nat (length intersection) / of_nat (length union))"

definition check_operation_deviation :: "string \<Rightarrow> string \<Rightarrow> Finding option" where
  "check_operation_deviation planned actual =
     (if planned = [] \<or> actual = [] then None
      else let planned_normalized = normalize planned;
               actual_normalized = normalize actual
           in if planned_normalized = actual_normalized then None
              else let sim = calculate_similarity planned_normalized actual_normalized
                   in if sim \<ge> 9 / 10 then None
                      else Some \<lparr> finding_type = OPERATION_DEVIATION,
                                  deviation_type = (if sim \<ge> 7 / 10 then MINOR else MAJOR),
                                  finding_planned = planned,
                                  finding_actual = actual,
                                  similarity = Some sim \<rparr>)"

definition error_indicators :: "string list" where
  "error_indicators = [
     ''error'', ''failed'', ''exception'', ''traceback'',
     ''denied'', ''forbidden'', ''unauthorized'', ''timeout'',
     ''not found'', ''does not exist'', ''cannot'', ''unable'']"

definition success_indicators :: "string list" where
  "success_indicators = [
     ''success'', ''completed'', ''done'', ''created'',
     ''updated'', ''deleted'', ''ok'', ''passed'']"

definition check_outcome_deviation :: "string \<Rightarrow> string \<Rightarrow> Finding option" where
  "check_outcome_deviation expected actual =
     (if expected = [] \<or> actual = [] then None
      else let expected_lower = lower expected;
               actual_lower = lower actual;
               has_error = any_keyword_in error_indicators actual_lower
           in if has_error
              then Some \<lparr> finding_type = OUTCOME_DEVIATION, deviation_type = CRITICAL,
                          finding_planned = expected, finding_actual = actual, similarity = None \<rparr>
              else let expected_success = any_keyword_in success_indicators expected_lower;
                       actual_success = any_keyword_in success_indicators actual_lower
                   in if expected_success \<and> \<not> actual_success
                      then Some \<lparr> finding_type = OUTCOME_DEVIATION, deviation_type = MAJOR,
                                  finding_planned = expected, finding_actual = actual,
                                  similarity = None \<rparr>
                      else None)"

text \<open>\<open>severity_order.index\<close> on \<open>["minor", "major", "critical"]\<close>; every finding
  carries one of the three.\<close>

fun severity_index :: "Severity \<Rightarrow> nat" where
  "severity_index MINOR = 0"
| "severity_index MAJOR = 1"
| "severity_index CRITICAL = 2"
| "severity_index SEV_NONE = 0"

fun severity_loop :: "Finding list \<Rightarrow> Severity \<Rightarrow> Severity" where
  "severity_loop [] max_severity = max_severity"
| "severity_loop (d # ds) max_severity =
     severity_loop ds
       (if severity_index (deviation_type d) > severity_index max_severity
        then deviation_type d else max_severity)"

definition calculate_severity :: "Finding list \<Rightarrow> Severity" where
  "calculate_severity ds = (if ds = [] then SEV_NONE else severity_loop ds MINOR)"

definition detector_recommendations :: "Finding list \<Rightarrow> Severity \<Rightarrow> Recommendation list" where
  "detector_recommendations ds sev =
     (if sev = SEV_NONE then [Line ''Execution proceeded as planned'']
      else
        (if sev = CRITICAL then
           [Line ''STOP: Critical deviation detected'',
            Line ''Review error output and assess impact'',
            Line ''Consider rolling back completed steps''] else []) @
        (if sev = MAJOR then
           [Line ''CAUTION: Significant deviation from plan'',
            Line ''Verify actual outcome before proceeding'',
            Line ''Consider updating plan if deviation is acceptable''] else []) @
        (if sev = MINOR then
           [Line ''NOTE: Minor deviation detected'',
            Line ''Review changes and confirm acceptability''] else []) @
        map (\<lambda>d. SimilarityLine (case similarity d of None \<Rightarrow> 0 | Some x \<Rightarrow> x))
            (filter (\<lambda>d. finding_type d = OPERATION_DEVIATION) ds))"

definition option_to_list :: "'a option \<Rightarrow> 'a list" where
  "option_to_list x = (case x of None \<Rightarrow> [] | Some v \<Rightarrow> [v])"

definition detect :: "PlanStep \<Rightarrow> string \<Rightarrow> string \<Rightarrow> DeviationReport" where
  "detect step actual_operation actual_outcome =
     (let operation_deviation = check_operation_deviation (step_operation step) actual_operation;
          outcome_deviation = check_outcome_deviation (expected_outcome step) actual_outcome;
          ds = option_to_list operation_deviation @ option_to_list outcome_deviation;
          sev = calculate_severity ds
      in \<lparr> report_step_id = step_id step,
           has_deviation = (length ds > 0),
           severity = sev,
           deviations = ds,
           report_recommendations = detector_recommendations ds sev \<rparr>)"

section \<open>Session store (\<open>state/session.py\<close>)\<close>

text \<open>
  The three dictionaries of \<open>SessionManager\<close>. Objects of the source are mutated in
  place; here every operation returns the session that holds the changed plan. The
  reading of \<open>datetime.now()\<close> taken by an operation is its argument \<open>now\<close>, and
  the UUIDs an operation draws are arguments too.
\<close>

record Session =
  assessments :: "string \<rightharpoonup> Assessment"
  plans :: "string \<rightharpoonup> Plan"
  approvals :: "string \<rightharpoonup> Approval"

definition empty_session :: Session where
  "empty_session = \<lparr> assessments = Map.empty, plans = Map.empty, approvals = Map.empty \<rparr>"

definition store_plan :: "Session \<Rightarrow> Plan \<Rightarrow> Session" where
  "store_plan s plan = s\<lparr> plans := (plans s)(plan_id plan \<mapsto> plan) \<rparr>"

definition get_plan :: "Session \<Rightarrow> string \<Rightarrow> Plan option" where
  "get_plan s pid = plans s pid"

definition store_approval :: "Session \<Rightarrow> Approval \<Rightarrow> Session" where
  "store_approval s approval = s\<lparr> approvals := (approvals s)(approval_id approval \<mapsto> approval) \<rparr>"

text \<open>The plan object found under key \<open>pid\<close> is replaced by its mutated state.\<close>

definition put_plan :: "Session \<Rightarrow> string \<Rightarrow> Plan \<Rightarrow> Session" where
  "put_plan s pid plan = s\<lparr> plans := (plans s)(pid \<mapsto> plan) \<rparr>"

definition set_step :: "StepStatus \<Rightarrow> string option \<Rightarrow> string option \<Rightarrow> nat \<Rightarrow> PlanStep \<Rightarrow> PlanStep" where
  "set_step status result error now step =
     step\<lparr> step_status := status,
           step_result := result,
           step_error := error,
           executed_at := (if status = STEP_COMPLETED \<or> status = STEP_FAILED
                           then Some now else executed_at step) \<rparr>"

text \<open>The loop \<open>for step in plan.steps: if step.id == step_id: ...; return step\<close>: the
  first step with the identifier is changed and returned.\<close>

fun update_first :: "string \<Rightarrow> (PlanStep \<Rightarrow> PlanStep) \<Rightarrow> PlanStep list \<Rightarrow> (PlanStep list \<times> PlanStep) option" where
  "update_first sid f [] = None"
| "update_first sid f (step # rest) =
     (if step_id step = sid then Some (f step # rest, f step)
      else (case update_first sid f rest of
              None \<Rightarrow> None
            | Some (rest', found) \<Rightarrow> Some (step # rest', found)))"

definition update_step_status ::
  "Session \<Rightarrow> string \<Rightarrow> string \<Rightarrow> StepStatus \<Rightarrow> string option \<Rightarrow> string option \<Rightarrow> nat
     \<Rightarrow> Session \<times> PlanStep option" where
  "update_step_status s pid sid status result error now =
     (case plans s pid of
        None \<Rightarrow> (s, None)
      | Some plan \<Rightarrow>
          (case update_first sid (set_step status result error now) (steps plan) of
             None \<Rightarrow> (s, None)
           | Some (steps', step) \<Rightarrow>
               (put_plan s pid (plan\<lparr> steps := steps', updated_at := now \<rparr>), Some step)))"


section \<open>Plan controller (\<open>core/plan_controller.py\<close>)\<close>

text \<open>A step definition is the dictionary passed to \<open>create_plan\<close>; an absent key is
  \<open>None\<close>.\<close>

record StepDef =
  def_description :: "string option"
  def_operation :: "string option"
  def_expected_outcome :: "string option"
  def_rollback_action :: "string option"

definition digit_of :: "nat \<Rightarrow> char" where
  "digit_of d = digit_chars ! d"

fun show_nat :: "nat \<Rightarrow> string" where
  "show_nat n = (if n < 10 then [digit_of n] else show_nat (n div 10) @ [digit_of (n mod 10)])"

declare show_nat.simps [simp del]

definition get_or :: "'a option \<Rightarrow> 'a \<Rightarrow> 'a" where
  "get_or x d = (case x of None \<Rightarrow> d | Some v \<Rightarrow> v)"

text \<open>\<open>for i, step_def in enumerate(steps)\<close>; \<open>new_ids i\<close> is the UUID drawn for the
  step at index \<open>i\<close>.\<close>

fun build_steps :: "(nat \<Rightarrow> string) \<Rightarrow> nat \<Rightarrow> StepDef list \<Rightarrow> PlanStep list" where
  "build_steps new_ids i [] = []"
| "build_steps new_ids i (step_def # rest) =
     \<lparr> step_id = new_ids i,
       step_order = i + 1,
       step_description = get_or (def_description step_def) (''Step '' @ show_nat (i + 1)),
       step_operation = get_or (def_operation step_def) [],
       expected_outcome = get_or (def_expected_outcome step_def) [],
       rollback_action = def_rollback_action step_def,
       step_status = STEP_PENDING,
       step_result = None,
       step_error = None,
       executed_at = None \<rparr> # build_steps new_ids (i + 1) rest"

definition create_plan ::
  "Session \<Rightarrow> string \<Rightarrow> (nat \<Rightarrow> string) \<Rightarrow> nat \<Rightarrow> string \<Rightarrow> string \<Rightarrow> Assessment \<Rightarrow> StepDef list
     \<Rightarrow> Session \<times> Plan" where
  "create_plan s new_plan_id new_step_ids now name description assessment step_defs =
     (let plan = \<lparr> plan_id = new_plan_id,
                   plan_name = name,
                   plan_description = description,
                   plan_assessment_id = assessment_id assessment,
                   steps = build_steps new_step_ids 0 step_defs,
                   plan_status = DRAFT,
                   current_step_index = 0,
                   created_at = now,
                   updated_at = now,
                   completed_at = None \<rparr>
      in (store_plan s plan, plan))"

datatype error = ValueError

definition submit_for_approval :: "Session \<Rightarrow> string \<Rightarrow> nat \<Rightarrow> error + Session \<times> Plan option" where
  "submit_for_approval s pid now =
     (case get_plan s pid of
        None \<Rightarrow> Inr (s, None)
      | Some plan \<Rightarrow>
          if plan_status plan \<noteq> DRAFT then Inl ValueError
          else let plan' = plan\<lparr> plan_status := AWAITING_APPROVAL, updated_at := now \<rparr>
               in Inr (put_plan s pid plan', Some plan'))"

definition new_approval :: "string \<Rightarrow> string \<Rightarrow> string \<Rightarrow> bool \<Rightarrow> string option \<Rightarrow> nat \<Rightarrow> Approval" where
  "new_approval new_id ttype tid ok reason now =
     \<lparr> approval_id = new_id, target_type = ttype, target_id = tid, approved = ok,
       approval_reason = reason, conditions = [], approved_by = ''user'',
       approval_timestamp = now \<rparr>"

definition approve_plan ::
  "Session \<Rightarrow> string \<Rightarrow> string option \<Rightarrow> string \<Rightarrow> nat \<Rightarrow> Session \<times> (Plan \<times> Approval) option" where
  "approve_plan s pid reason new_id now =
     (case get_plan s pid of
        None \<Rightarrow> (s, None)
      | Some plan \<Rightarrow>
          let approval = new_approval new_id ''plan'' pid True reason now;
              s1 = store_approval s approval;
              plan' = plan\<lparr> plan_status := IN_PROGRESS, updated_at := now,
                            steps := map (\<lambda>step. step\<lparr> step_status := STEP_APPROVED \<rparr>) (steps plan) \<rparr>
          in (put_plan s1 pid plan', Some (plan', approval)))"

definition deny_plan ::
  "Session \<Rightarrow> string \<Rightarrow> string option \<Rightarrow> string \<Rightarrow> nat \<Rightarrow> Session \<times> (Plan \<times> Approval) option" where
  "deny_plan s pid reason new_id now =
     (case get_plan s pid of
        None \<Rightarrow> (s, None)
      | Some plan \<Rightarrow>
          let approval = new_approval new_id ''plan'' pid False reason now;
              s1 = store_approval s approval;
              plan' = plan\<lparr> plan_status := ABORTED, updated_at := now, completed_at := Some now \<rparr>
          in (put_plan s1 pid plan', Some (plan', approval)))"

definition decide_step ::
  "bool \<Rightarrow> Session \<Rightarrow> string \<Rightarrow> string \<Rightarrow> string option \<Rightarrow> string \<Rightarrow> nat
     \<Rightarrow> Session \<times> (PlanStep \<times> Approval) option" where
  "decide_step ok s pid sid reason new_id now =
     (case get_plan s pid of
        None \<Rightarrow> (s, None)
      | Some plan \<Rightarrow>
          (case update_first sid
                  (\<lambda>step. step\<lparr> step_status := (if ok then STEP_APPROVED else STEP_DENIED) \<rparr>)
                  (steps plan) of
             None \<Rightarrow> (s, None)
           | Some (steps', step) \<Rightarrow>
               let approval = new_approval new_id ''step'' sid ok reason now;
                   s1 = store_approval s approval
               in (put_plan s1 pid (plan\<lparr> steps := steps', updated_at := now \<rparr>),
                   Some (step, approval))))"

definition approve_step ::
  "Session \<Rightarrow> string \<Rightarrow> string \<Rightarrow> string option \<Rightarrow> string \<Rightarrow> nat
     \<Rightarrow> Session \<times> (PlanStep \<times> Approval) option" where
  "approve_step = decide_step True"

definition deny_step ::
  "Session \<Rightarrow> string \<Rightarrow> string \<Rightarrow> string option \<Rightarrow> string \<Rightarrow> nat
     \<Rightarrow> Session \<times> (PlanStep \<times> Approval) option" where
  "deny_step = decide_step False"

definition start_step_execution :: "Session \<Rightarrow> string \<Rightarrow> string \<Rightarrow> nat \<Rightarrow> Session \<times> PlanStep option" where
  "start_step_execution s pid sid now = update_step_status s pid sid STEP_EXECUTING None None now"

definition all_completed :: "PlanStep list \<Rightarrow> bool" where
  "all_completed ss = list_all (\<lambda>step. step_status step = STEP_COMPLETED \<or> step_status step = STEP_SKIPPED) ss"

definition complete_step :: "Session \<Rightarrow> string \<Rightarrow> string \<Rightarrow> string \<Rightarrow> nat \<Rightarrow> Session \<times> PlanStep option" where
  "complete_step s pid sid result now =
     (case get_plan s pid of
        None \<Rightarrow> (s, None)
      | Some _ \<Rightarrow>
          (case update_step_status s pid sid STEP_COMPLETED (Some result) None now of
             (s1, None) \<Rightarrow> (s1, None)
           | (s1, Some step) \<Rightarrow>
               (case get_plan s1 pid of
                  None \<Rightarrow> (s1, Some step)
                | Some plan \<Rightarrow>
                    if all_completed (steps plan)
                    then (put_plan s1 pid (plan\<lparr> plan_status := PLAN_COMPLETED,
                                                  completed_at := Some now \<rparr>), Some step)
                    else (s1, Some step))))"

definition fail_step :: "Session \<Rightarrow> string \<Rightarrow> string \<Rightarrow> string \<Rightarrow> nat \<Rightarrow> Session \<times> PlanStep option" where
  "fail_step s pid sid err now =
     (case get_plan s pid of
        None \<Rightarrow> (s, None)
      | Some _ \<Rightarrow>
          (case update_step_status s pid sid STEP_FAILED None (Some err) now of
             (s1, None) \<Rightarrow> (s1, None)
           | (s1, Some step) \<Rightarrow>
               (case get_plan s1 pid of
                  None \<Rightarrow> (s1, Some step)
                | Some plan \<Rightarrow>
                    (put_plan s1 pid (plan\<lparr> plan_status := PLAN_FAILED, updated_at := now \<rparr>),
                     Some step))))"

record RollbackSuggestion =
  suggestion_step_id :: string
  suggestion_step_order :: nat
  suggestion_step_description :: string
  suggestion_rollback_action :: string

record AbortResult =
  abort_plan_id :: string
  abort_reason :: "string option"
  rollback_suggestions :: "RollbackSuggestion list"
  completed_steps :: nat
  skipped_steps :: nat

text \<open>Truth value of an optional string: neither \<open>None\<close> nor empty.\<close>

definition truthy :: "string option \<Rightarrow> bool" where
  "truthy x = (case x of None \<Rightarrow> False | Some v \<Rightarrow> v \<noteq> [])"

definition suggestion_of :: "PlanStep \<Rightarrow> RollbackSuggestion" where
  "suggestion_of step =
     \<lparr> suggestion_step_id = step_id step,
       suggestion_step_order = step_order step,
       suggestion_step_description = step_description step,
       suggestion_rollback_action = get_or (rollback_action step) [] \<rparr>"

fun collect_rollback :: "PlanStep list \<Rightarrow> RollbackSuggestion list \<Rightarrow> RollbackSuggestion list" where
  "collect_rollback [] acc = acc"
| "collect_rollback (step # rest) acc =
     collect_rollback rest
       (if step_status step = STEP_COMPLETED \<and> truthy (rollback_action step)
        then acc @ [suggestion_of step]
        else acc)"

fun skip_remaining :: "PlanStep list \<Rightarrow> PlanStep list" where
  "skip_remaining [] = []"
| "skip_remaining (step # rest) =
     (if step_status step = STEP_PENDING \<or> step_status step = STEP_APPROVED
      then step\<lparr> step_status := STEP_SKIPPED \<rparr> else step) # skip_remaining rest"

fun count_status :: "StepStatus \<Rightarrow> PlanStep list \<Rightarrow> nat" where
  "count_status st [] = 0"
| "count_status st (step # rest) = (if step_status step = st then 1 else 0) + count_status st rest"

definition abort_plan :: "Session \<Rightarrow> string \<Rightarrow> string option \<Rightarrow> nat \<Rightarrow> Session \<times> AbortResult option" where
  "abort_plan s pid reason now =
     (case get_plan s pid of
        None \<Rightarrow> (s, None)
      | Some plan \<Rightarrow>
          let suggestions = collect_rollback (steps plan) [];
              steps' = skip_remaining (steps plan);
              plan' = plan\<lparr> steps := steps', plan_status := ABORTED, updated_at := now,
                            completed_at := Some now \<rparr>
          in (put_plan s pid plan',
              Some \<lparr> abort_plan_id = pid,
                     abort_reason = reason,
                     rollback_suggestions = rev suggestions,
                     completed_steps = count_status STEP_COMPLETED steps',
                     skipped_steps = count_status STEP_SKIPPED steps' \<rparr>))"

text \<open>One call of a controller operation on a stored plan, with the arguments of the
  source and the UUID it draws. \<open>run_call\<close> gives the session after the call; a call
  that raises leaves the session as it was.\<close>

datatype Call =
    SubmitForApproval string
  | ApprovePlan string "string option" string
  | DenyPlan string "string option" string
  | ApproveStep string string "string option" string
  | DenyStep string string "string option" string
  | StartStepExecution string string
  | CompleteStep string string string
  | FailStep string string string
  | AbortPlan string "string option"

fun run_call :: "Session \<Rightarrow> Call \<times> nat \<Rightarrow> Session" where
  "run_call s (SubmitForApproval pid, now) =
     (case submit_for_approval s pid now of Inl _ \<Rightarrow> s | Inr (s', _) \<Rightarrow> s')"
| "run_call s (ApprovePlan pid reason new_id, now) = fst (approve_plan s pid reason new_id now)"
| "run_call s (DenyPlan pid reason new_id, now) = fst (deny_plan s pid reason new_id now)"
| "run_call s (ApproveStep pid sid reason new_id, now) = fst (approve_step s pid sid reason new_id now)"
| "run_call s (DenyStep pid sid reason new_id, now) = fst (deny_step s pid sid reason new_id now)"
| "run_call s (StartStepExecution pid sid, now) = fst (start_step_execution s pid sid now)"
| "run_call s (CompleteStep pid sid result, now) = fst (complete_step s pid sid result now)"
| "run_call s (FailStep pid sid err, now) = fst (fail_step s pid sid err now)"
| "run_call s (AbortPlan pid reason, now) = fst (abort_plan s pid reason now)"

definition run_calls :: "Session \<Rightarrow> (Call \<times> nat) list \<Rightarrow> Session" where
  "run_calls s calls = foldl run_call s calls"


section \<open>Audit log (\<open>state/audit.py\<close>)\<close>

record AuditEntry =
  entry_id :: string
  entry_action :: string
  entry_operation :: string
  entry_risk_level :: RiskLevel
  entry_details :: "(string \<times> string) list"
  entry_assessment_id :: "string option"
  entry_plan_id :: "string option"
  entry_step_id :: "string option"
  entry_success :: bool
  entry_error :: "string option"
  entry_timestamp :: nat

text \<open>The keyword arguments of \<open>get_entries\<close>.\<close>

record Query =
  q_limit :: "int option"
  q_offset :: int
  q_risk_level :: "RiskLevel option"
  q_action :: "string option"
  q_since :: "nat option"
  q_until :: "nat option"
  q_assessment_id :: "string option"
  q_plan_id :: "string option"
  q_success_only :: bool
  q_failures_only :: bool

text \<open>\<open>if x is not None: entries = [e for e in entries if p x e]\<close>\<close>

definition filter_if_given :: "'a option \<Rightarrow> ('a \<Rightarrow> AuditEntry \<Rightarrow> bool) \<Rightarrow> AuditEntry list \<Rightarrow> AuditEntry list" where
  "filter_if_given x p entries = (case x of None \<Rightarrow> entries | Some v \<Rightarrow> filter (p v) entries)"

text \<open>\<open>list.sort(key=..., reverse=True)\<close>: the list is reversed, sorted stably in
  ascending order of the key, and reversed again.\<close>

definition sort_reverse :: "('a \<Rightarrow> nat) \<Rightarrow> 'a list \<Rightarrow> 'a list" where
  "sort_reverse key xs = rev (sort_key key (rev xs))"

text \<open>The slices \<open>xs[k:]\<close> and \<open>xs[:k]\<close>; a negative \<open>k\<close> counts from the end.\<close>

definition slice_from :: "int \<Rightarrow> 'a list \<Rightarrow> 'a list" where
  "slice_from k xs = (if k \<ge> 0 then drop (nat k) xs else drop (nat (int (length xs) + k)) xs)"

definition slice_to :: "int \<Rightarrow> 'a list \<Rightarrow> 'a list" where
  "slice_to k xs = (if k \<ge> 0 then take (nat k) xs else take (nat (int (length xs) + k)) xs)"

definition get_entries :: "AuditEntry list \<Rightarrow> Query \<Rightarrow> AuditEntry list" where
  "get_entries audit_log q =
     (let entries = audit_log;
          entries = filter_if_given (q_risk_level q) (\<lambda>v e. entry_risk_level e = v) entries;
          entries = filter_if_given (q_action q) (\<lambda>v e. entry_action e = v) entries;
          entries = filter_if_given (q_since q) (\<lambda>v e. entry_timestamp e \<ge> v) entries;
          entries = filter_if_given (q_until q) (\<lambda>v e. entry_timestamp e \<le> v) entries;
          entries = filter_if_given (q_assessment_id q) (\<lambda>v e. entry_assessment_id e = Some v) entries;
          entries = filter_if_given (q_plan_id q) (\<lambda>v e. entry_plan_id e = Some v) entries;
          entries = (if q_success_only q then filter (\<lambda>e. entry_success e) entries else entries);
          entries = (if q_failures_only q then filter (\<lambda>e. \<not> entry_success e) entries else entries);
          entries = sort_reverse entry_timestamp entries;
          entries = (if q_offset q > 0 then slice_from (q_offset q) entries else entries);
          entries = (case q_limit q of None \<Rightarrow> entries | Some l \<Rightarrow> slice_to l entries)
      in entries)"

text \<open>The reading of the specification: filter by the criteria given, sort by timestamp
  with the most recent first, drop the first \<open>offset\<close> entries, take the first
  \<open>limit\<close> entries.\<close>

definition satisfies :: "Query \<Rightarrow> AuditEntry \<Rightarrow> bool" where
  "satisfies q e =
     ((case q_risk_level q of None \<Rightarrow> True | Some v \<Rightarrow> entry_risk_level e = v) \<and>
      (case q_action q of None \<Rightarrow> True | Some v \<Rightarrow> entry_action e = v) \<and>
      (case q_since q of None \<Rightarrow> True | Some v \<Rightarrow> entry_timestamp e \<ge> v) \<and>
      (case q_until q of None \<Rightarrow> True | Some v \<Rightarrow> entry_timestamp e \<le> v) \<and>
      (case q_assessment_id q of None \<Rightarrow> True | Some v \<Rightarrow> entry_assessment_id e = Some v) \<and>
      (case q_plan_id q of None \<Rightarrow> True | Some v \<Rightarrow> entry_plan_id e = Some v) \<and>
      (if q_success_only q then entry_success e else True) \<and>
      (if q_failures_only q then \<not> entry_success e else True))"

definition get_entries_spec :: "AuditEntry list \<Rightarrow> Query \<Rightarrow> AuditEntry list" where
  "get_entries_spec audit_log q =
     (let filtered = filter (satisfies q) audit_log;
          sorted_desc = sort_key (\<lambda>e. - int (entry_timestamp e)) filtered;
          dropped = drop (nat (q_offset q)) sorted_desc
      in case q_limit q of None \<Rightarrow> dropped | Some l \<Rightarrow> take (nat l) dropped)"

section \<open>Example data\<close>

text \<open>The plan of the tool documentation: back up a table, delete stale rows, verify.\<close>

definition example_step :: "string \<Rightarrow> nat \<Rightarrow> StepStatus \<Rightarrow> string option \<Rightarrow> PlanStep" where
  "example_step sid n st rb =
     \<lparr> step_id = sid, step_order = n, step_description = ''Create backup of user_sessions table'',
       step_operation = ''pg_dump -t user_sessions'', expected_outcome = ''Backup file created'',
       rollback_action = rb, step_status = st, step_result = None, step_error = None,
       executed_at = None \<rparr>"

definition example_plan :: "PlanStatus \<Rightarrow> nat option \<Rightarrow> PlanStep list \<Rightarrow> Plan" where
  "example_plan st finished ss =
     \<lparr> plan_id = ''p1'', plan_name = ''Database Cleanup'',
       plan_description = ''Remove stale records from user_sessions table'',
       plan_assessment_id = ''a1'', steps = ss, plan_status = st, current_step_index = 0,
       created_at = 1, updated_at = 1, completed_at = finished \<rparr>"

definition example_session :: "Plan \<Rightarrow> Session" where
  "example_session plan = store_plan empty_session plan"

text \<open>S1 and S3 completed with a rollback, S2 completed without one, S4 approved with a
  rollback, S5 pending.\<close>

definition partly_done_plan :: Plan where
  "partly_done_plan = example_plan IN_PROGRESS None
     [example_step ''s1'' 1 STEP_COMPLETED (Some ''undo1''),
      example_step ''s2'' 2 STEP_COMPLETED None,
      example_step ''s3'' 3 STEP_COMPLETED (Some ''undo3''),
      example_step ''s4'' 4 STEP_APPROVED (Some ''undo4''),
      example_step ''s5'' 5 STEP_PENDING None]"

definition pending_plan :: Plan where
  "pending_plan = example_plan IN_PROGRESS None
     [example_step ''s1'' 1 STEP_PENDING None,
      example_step ''s2'' 2 STEP_PENDING None,
      example_step ''s3'' 3 STEP_PENDING None]"

definition finished_plan :: Plan where
  "finished_plan = example_plan PLAN_COMPLETED (Some 5)
     [example_step ''s1'' 1 STEP_COMPLETED None,
      example_step ''s2'' 2 STEP_SKIPPED None]"

text \<open>A plan as \<open>create_plan\<close> leaves it, with one step.\<close>

definition fresh_session :: Session where
  "fresh_session =
     fst (create_plan empty_session ''p1'' (\<lambda>i. ''s1'') 1 ''Database Cleanup'' []
            (assess ''a1'' 0 [] [] [])
            [\<lparr> def_description = Some ''Delete stale sessions'',
               def_operation = Some ''DELETE FROM user_sessions'',
               def_expected_outcome = None,
               def_rollback_action = None \<rparr>])"

definition example_entry :: "string \<Rightarrow> nat \<Rightarrow> AuditEntry" where
  "example_entry eid t =
     \<lparr> entry_id = eid, entry_action = ''assess'', entry_operation = ''ls'',
       entry_risk_level = LOW, entry_details = [], entry_assessment_id = None,
       entry_plan_id = None, entry_step_id = None, entry_success = True, entry_error = None,
       entry_timestamp = t \<rparr>"

definition example_query :: "int option \<Rightarrow> int \<Rightarrow> Query" where
  "example_query limit offset =
     \<lparr> q_limit = limit, q_offset = offset, q_risk_level = None, q_action = None,
       q_since = None, q_until = None, q_assessment_id = None, q_plan_id = None,
       q_success_only = False, q_failures_only = False \<rparr>"



section \<open>Properties of the risk assessor\<close>

lemma classifier_weights:
  "snd (classify operation context) = RESOURCE_RISK_SCORES (fst (classify operation context))"
  "snd (classify_action operation) = ACTION_MULTIPLIERS (fst (classify_action operation))"
  "snd (classify_scope operation context) = SCOPE_MULTIPLIERS (fst (classify_scope operation context))"
  by (simp_all add: classify_def classify_action_def classify_scope_def Let_def)

lemma risk_level_thresholds:
  "(calculate_risk_level x = LOW) = (x < 3)"
  "(calculate_risk_level x = MEDIUM) = (3 \<le> x \<and> x \<le> 8)"
  "(calculate_risk_level x = HIGH) = (8 < x)"
  by (auto simp add: calculate_risk_level_def LOW_THRESHOLD_def MEDIUM_THRESHOLD_def)

lemma assess_score:
  "risk_score (assess new_id now operation description context) =
     snd (classify operation context) * snd (classify_action operation) *
     snd (classify_scope operation context)"
  by (simp add: assess_def Let_def split: prod.splits)

lemma assess_level:
  "risk_level (assess new_id now operation description context) =
     calculate_risk_level (risk_score (assess new_id now operation description context))"
  by (simp add: assess_def Let_def split: prod.splits)

text \<open>
  Claim C1. For every operation, description and context, the assessment returned by
  \<open>assess\<close> has as risk score the product of the resource base score, the action
  multiplier and the scope multiplier that the three classifiers give on that input, and
  its risk level is LOW iff the score is below 3, MEDIUM iff it lies between 3 and 8
  inclusive, and HIGH iff it exceeds 8.
\<close>

theorem assess_score_and_level:
  "(let a = assess new_id now operation description context in
      risk_score a =
           RESOURCE_RISK_SCORES (fst (classify operation context)) *
           ACTION_MULTIPLIERS (fst (classify_action operation)) *
           SCOPE_MULTIPLIERS (fst (classify_scope operation context))
       \<and> risk_score a =
           snd (classify operation context) * snd (classify_action operation) *
           snd (classify_scope operation context)
       \<and> (risk_level a = LOW) = (risk_score a < 3)
       \<and> (risk_level a = MEDIUM) = (3 \<le> risk_score a \<and> risk_score a \<le> 8)
       \<and> (risk_level a = HIGH) = (risk_score a > 8))"
  unfolding Let_def
  by (simp only: assess_level risk_level_thresholds assess_score classifier_weights)

lemma delete_all_resource:
  "classify ''delete all records from user_sessions table'' [] = (LOCAL_FILE, 1)"
  by code_simp

lemma delete_all_no_database_pattern:
  "\<not> matches_any_pattern ''delete all records from user_sessions table'' DATABASE_PATTERNS"
  by code_simp

lemma delete_all_action:
  "classify_action ''delete all records from user_sessions table'' = (DELETE, 5 / 2)"
  by code_simp

lemma delete_all_scope:
  "classify_scope ''delete all records from user_sessions table'' [] = (COLLECTION, 2)"
  by code_simp

text \<open>
  Claim C2, as stated, fails: no database pattern matches the operation
  \<open>delete all records from user_sessions table\<close> (there is no \<open>DELETE FROM\<close>, no
  file extension, no connection string), so the resource is not DATABASE and the score is
  not 20.
\<close>

theorem delete_all_records_not_high:
  "\<not> (classify ''delete all records from user_sessions table'' [] = (DATABASE, 4) \<and>
      classify_action ''delete all records from user_sessions table'' = (DELETE, 5 / 2) \<and>
      classify_scope ''delete all records from user_sessions table'' [] = (COLLECTION, 2) \<and>
      risk_score (assess [] 0 ''delete all records from user_sessions table'' [] []) = 20 \<and>
      risk_level (assess [] 0 ''delete all records from user_sessions table'' [] []) = HIGH)"
  by (simp add: delete_all_resource)

text \<open>
  Claim C2, amended. For the operation \<open>delete all records from user_sessions table\<close>
  with empty context, no database pattern matches; the word \<open>delete\<close> makes it a
  generic file operation, so the resource is LOCAL_FILE with base score 1; the action is
  DELETE with multiplier 2.5 and the scope COLLECTION with multiplier 2.0; the risk score
  is 5.0 and the risk level MEDIUM.
\<close>

theorem delete_all_records_assessment:
  "\<not> matches_any_pattern ''delete all records from user_sessions table'' DATABASE_PATTERNS \<and>
   classify ''delete all records from user_sessions table'' [] = (LOCAL_FILE, 1) \<and>
   classify_action ''delete all records from user_sessions table'' = (DELETE, 5 / 2) \<and>
   classify_scope ''delete all records from user_sessions table'' [] = (COLLECTION, 2) \<and>
   risk_score (assess new_id now ''delete all records from user_sessions table'' description []) = 5 \<and>
   risk_level (assess new_id now ''delete all records from user_sessions table'' description []) = MEDIUM"
  by (simp add: delete_all_no_database_pattern assess_level assess_score delete_all_resource
        delete_all_action delete_all_scope risk_level_thresholds)

section \<open>Properties of the classifiers\<close>

text \<open>
  Claim C7. For every operation and context whose combined text matches at least one
  system-command pattern, \<open>classify\<close> returns SYSTEM_COMMAND with base score 5, also
  when the same text matches database, sensitive-file, external-API or generic file
  patterns. The first match in strict descending risk order wins: a text that matches no
  system-command pattern but a database pattern is DATABASE with score 4, one that matches
  neither of these but a sensitive-file pattern is SENSITIVE_FILE with score 3, then
  EXTERNAL_API with score 2, then LOCAL_FILE with score 1 for a generic file operation, and
  MEMORY with score 0 when nothing matches. One resource type is returned, with its own
  base score.
\<close>

theorem system_command_wins:
  "(matches_any_pattern (strip (combine operation context)) SYSTEM_COMMAND_PATTERNS \<longrightarrow>
      classify operation context = (SYSTEM_COMMAND, 5)) \<and>
   (\<not> matches_any_pattern (strip (combine operation context)) SYSTEM_COMMAND_PATTERNS \<and>
    matches_any_pattern (strip (combine operation context)) DATABASE_PATTERNS \<longrightarrow>
      classify operation context = (DATABASE, 4)) \<and>
   (\<not> matches_any_pattern (strip (combine operation context)) SYSTEM_COMMAND_PATTERNS \<and>
    \<not> matches_any_pattern (strip (combine operation context)) DATABASE_PATTERNS \<and>
    matches_any_pattern (strip (combine operation context)) SENSITIVE_FILE_PATTERNS \<longrightarrow>
      classify operation context = (SENSITIVE_FILE, 3)) \<and>
   (\<not> matches_any_pattern (strip (combine operation context)) SYSTEM_COMMAND_PATTERNS \<and>
    \<not> matches_any_pattern (strip (combine operation context)) DATABASE_PATTERNS \<and>
    \<not> matches_any_pattern (strip (combine operation context)) SENSITIVE_FILE_PATTERNS \<and>
    matches_any_pattern (strip (combine operation context)) API_PATTERNS \<longrightarrow>
      classify operation context = (EXTERNAL_API, 2)) \<and>
   (\<not> matches_any_pattern (strip (combine operation context)) SYSTEM_COMMAND_PATTERNS \<and>
    \<not> matches_any_pattern (strip (combine operation context)) DATABASE_PATTERNS \<and>
    \<not> matches_any_pattern (strip (combine operation context)) SENSITIVE_FILE_PATTERNS \<and>
    \<not> matches_any_pattern (strip (combine operation context)) API_PATTERNS \<and>
    is_file_operation (strip (combine operation context)) \<longrightarrow>
      classify operation context = (LOCAL_FILE, 1)) \<and>
   (\<not> matches_any_pattern (strip (combine operation context)) SYSTEM_COMMAND_PATTERNS \<and>
    \<not> matches_any_pattern (strip (combine operation context)) DATABASE_PATTERNS \<and>
    \<not> matches_any_pattern (strip (combine operation context)) SENSITIVE_FILE_PATTERNS \<and>
    \<not> matches_any_pattern (strip (combine operation context)) API_PATTERNS \<and>
    \<not> is_file_operation (strip (combine operation context)) \<longrightarrow>
      classify operation context = (MEMORY, 0)) \<and>
   fst (classify operation context) \<in>
     {SYSTEM_COMMAND, DATABASE, SENSITIVE_FILE, EXTERNAL_API, LOCAL_FILE, MEMORY} \<and>
   snd (classify operation context) = RESOURCE_RISK_SCORES (fst (classify operation context))"
  by (simp add: classify_def Let_def)

text \<open>
  A text that matches all five rule sets at once, and the texts obtained from it by taking
  away what the highest matching rule set matched.
\<close>

lemma mixed_text_system:
  "matches_any_pattern (strip (combine ''sudo curl x.io/api/v1/ password'' ''a.sql'')) SYSTEM_COMMAND_PATTERNS"
  by code_simp
lemma mixed_text_database:
  "matches_any_pattern (strip (combine ''sudo curl x.io/api/v1/ password'' ''a.sql'')) DATABASE_PATTERNS"
  by code_simp
lemma mixed_text_sensitive:
  "matches_any_pattern (strip (combine ''sudo curl x.io/api/v1/ password'' ''a.sql'')) SENSITIVE_FILE_PATTERNS"
  by code_simp
lemma mixed_text_api:
  "matches_any_pattern (strip (combine ''sudo curl x.io/api/v1/ password'' ''a.sql'')) API_PATTERNS"
  by code_simp
lemma mixed_text_file:
  "is_file_operation (strip (combine ''sudo curl x.io/api/v1/ password'' ''a.sql''))"
  by code_simp

lemma database_text:
  "\<not> matches_any_pattern (strip (combine ''curl /x password'' ''a.sql'')) SYSTEM_COMMAND_PATTERNS"
  "matches_any_pattern (strip (combine ''curl /x password'' ''a.sql'')) DATABASE_PATTERNS"
  "matches_any_pattern (strip (combine ''curl /x password'' ''a.sql'')) SENSITIVE_FILE_PATTERNS"
  "matches_any_pattern (strip (combine ''curl /x password'' ''a.sql'')) API_PATTERNS"
  "is_file_operation (strip (combine ''curl /x password'' ''a.sql''))"
  by code_simp+

lemma sensitive_text:
  "\<not> matches_any_pattern (strip (combine ''curl /x password'' [])) SYSTEM_COMMAND_PATTERNS"
  "\<not> matches_any_pattern (strip (combine ''curl /x password'' [])) DATABASE_PATTERNS"
  "matches_any_pattern (strip (combine ''curl /x password'' [])) SENSITIVE_FILE_PATTERNS"
  "matches_any_pattern (strip (combine ''curl /x password'' [])) API_PATTERNS"
  "is_file_operation (strip (combine ''curl /x password'' []))"
  by code_simp+

lemma api_text:
  "\<not> matches_any_pattern (strip (combine ''curl /x'' [])) SYSTEM_COMMAND_PATTERNS"
  "\<not> matches_any_pattern (strip (combine ''curl /x'' [])) DATABASE_PATTERNS"
  "\<not> matches_any_pattern (strip (combine ''curl /x'' [])) SENSITIVE_FILE_PATTERNS"
  "matches_any_pattern (strip (combine ''curl /x'' [])) API_PATTERNS"
  "is_file_operation (strip (combine ''curl /x'' []))"
  by code_simp+

lemma file_text:
  "\<not> matches_any_pattern (strip (combine ''/x'' [])) SYSTEM_COMMAND_PATTERNS"
  "\<not> matches_any_pattern (strip (combine ''/x'' [])) DATABASE_PATTERNS"
  "\<not> matches_any_pattern (strip (combine ''/x'' [])) SENSITIVE_FILE_PATTERNS"
  "\<not> matches_any_pattern (strip (combine ''/x'' [])) API_PATTERNS"
  "is_file_operation (strip (combine ''/x'' []))"
  by code_simp+

lemma memory_text:
  "\<not> matches_any_pattern (strip (combine ''x'' [])) SYSTEM_COMMAND_PATTERNS"
  "\<not> matches_any_pattern (strip (combine ''x'' [])) DATABASE_PATTERNS"
  "\<not> matches_any_pattern (strip (combine ''x'' [])) SENSITIVE_FILE_PATTERNS"
  "\<not> matches_any_pattern (strip (combine ''x'' [])) API_PATTERNS"
  "\<not> is_file_operation (strip (combine ''x'' []))"
  by code_simp+

text \<open>Witness for C7: in each of the six texts the highest matching rule set decides.\<close>

theorem system_command_wins_witness:
  "matches_any_pattern (strip (combine ''sudo curl x.io/api/v1/ password'' ''a.sql'')) SYSTEM_COMMAND_PATTERNS \<and>
   matches_any_pattern (strip (combine ''sudo curl x.io/api/v1/ password'' ''a.sql'')) DATABASE_PATTERNS \<and>
   matches_any_pattern (strip (combine ''sudo curl x.io/api/v1/ password'' ''a.sql'')) SENSITIVE_FILE_PATTERNS \<and>
   matches_any_pattern (strip (combine ''sudo curl x.io/api/v1/ password'' ''a.sql'')) API_PATTERNS \<and>
   is_file_operation (strip (combine ''sudo curl x.io/api/v1/ password'' ''a.sql'')) \<and>
   classify ''sudo curl x.io/api/v1/ password'' ''a.sql'' = (SYSTEM_COMMAND, 5) \<and>
   matches_any_pattern (strip (combine ''curl /x password'' ''a.sql'')) DATABASE_PATTERNS \<and>
   matches_any_pattern (strip (combine ''curl /x password'' ''a.sql'')) SENSITIVE_FILE_PATTERNS \<and>
   matches_any_pattern (strip (combine ''curl /x password'' ''a.sql'')) API_PATTERNS \<and>
   is_file_operation (strip (combine ''curl /x password'' ''a.sql'')) \<and>
   classify ''curl /x password'' ''a.sql'' = (DATABASE, 4) \<and>
   matches_any_pattern (strip (combine ''curl /x password'' [])) SENSITIVE_FILE_PATTERNS \<and>
   matches_any_pattern (strip (combine ''curl /x password'' [])) API_PATTERNS \<and>
   is_file_operation (strip (combine ''curl /x password'' [])) \<and>
   classify ''curl /x password'' [] = (SENSITIVE_FILE, 3) \<and>
   matches_any_pattern (strip (combine ''curl /x'' [])) API_PATTERNS \<and>
   is_file_operation (strip (combine ''curl /x'' [])) \<and>
   classify ''curl /x'' [] = (EXTERNAL_API, 2) \<and>
   is_file_operation (strip (combine ''/x'' [])) \<and>
   classify ''/x'' [] = (LOCAL_FILE, 1) \<and>
   classify ''x'' [] = (MEMORY, 0)"
proof -
  have "classify ''sudo curl x.io/api/v1/ password'' ''a.sql'' = (SYSTEM_COMMAND, 5)"
    using system_command_wins [of "''sudo curl x.io/api/v1/ password''" "''a.sql''"] mixed_text_system
    by blast
  moreover have "classify ''curl /x password'' ''a.sql'' = (DATABASE, 4)"
    using system_command_wins [of "''curl /x password''" "''a.sql''"] database_text
    by blast
  moreover have "classify ''curl /x password'' [] = (SENSITIVE_FILE, 3)"
    using system_command_wins [of "''curl /x password''" "[]"] sensitive_text
    by blast
  moreover have "classify ''curl /x'' [] = (EXTERNAL_API, 2)"
    using system_command_wins [of "''curl /x''" "[]"] api_text
    by blast
  moreover have "classify ''/x'' [] = (LOCAL_FILE, 1)"
    using system_command_wins [of "''/x''" "[]"] file_text
    by blast
  moreover have "classify ''x'' [] = (MEMORY, 0)"
    using system_command_wins [of "''x''" "[]"] memory_text
    by blast
  ultimately show ?thesis
    using mixed_text_system mixed_text_database mixed_text_sensitive mixed_text_api mixed_text_file
      database_text sensitive_text api_text file_text
    by blast
qed

text \<open>
  Claim C8. For every operation text that matches a read-only pattern,
  \<open>classify_action\<close> returns READ with multiplier 0.5 without consulting the keyword
  lists; in particular \<open>cat config.yaml\<close> is classified READ.
\<close>

theorem read_only_short_circuit:
  "(matches_any_pattern operation READ_ONLY_PATTERNS \<longrightarrow> classify_action operation = (READ, 1 / 2)) \<and>
   matches_any_pattern ''cat config.yaml'' READ_ONLY_PATTERNS \<and>
   classify_action ''cat config.yaml'' = (READ, 1 / 2)"
proof -
  have general: "classify_action x = (READ, 1 / 2)" if "matches_any_pattern x READ_ONLY_PATTERNS" for x
    using that by (simp add: classify_action_def Let_def)
  have cat: "matches_any_pattern ''cat config.yaml'' READ_ONLY_PATTERNS"
    by code_simp
  show ?thesis using general [of operation] general [OF cat] cat by blast
qed

lemma cat_run_read_only: "matches_any_pattern ''cat deploy_script.sh'' READ_ONLY_PATTERNS"
  by code_simp
lemma cat_run_execute_keyword: "any_keyword_in EXECUTE_KEYWORDS (lower ''cat deploy_script.sh'')"
  by code_simp

text \<open>Witness for C8: a read-only command whose text contains execute keywords.\<close>

theorem read_only_short_circuit_witness:
  "matches_any_pattern ''cat deploy_script.sh'' READ_ONLY_PATTERNS \<and>
   any_keyword_in EXECUTE_KEYWORDS (lower ''cat deploy_script.sh'') \<and>
   classify_action ''cat deploy_script.sh'' = (READ, 1 / 2)"
  using read_only_short_circuit [of "''cat deploy_script.sh''"] cat_run_read_only cat_run_execute_keyword
  by blast

section \<open>Properties of the deviation detector\<close>

text \<open>\<open>contains\<close> is the substring relation.\<close>

lemma starts_with_iff: "starts_with n h = (\<exists>s. h = n @ s)"
  by (induction n h rule: starts_with.induct) auto

lemma contains_iff: "contains n h = (\<exists>p s. h = p @ n @ s)"
proof (induction h)
  case Nil
  then show ?case by auto
next
  case (Cons c h)
  show ?case
  proof
    assume "contains n (c # h)"
    then consider "starts_with n (c # h)" | "contains n h"
      by (auto split: if_splits)
    then show "\<exists>p s. c # h = p @ n @ s"
    proof cases
      case 1
      then obtain s where "c # h = n @ s" by (auto simp: starts_with_iff)
      then have "c # h = [] @ n @ s" by simp
      then show ?thesis by blast
    next
      case 2
      then obtain p s where "h = p @ n @ s" using Cons.IH by blast
      then have "c # h = (c # p) @ n @ s" by simp
      then show ?thesis by blast
    qed
  next
    assume "\<exists>p s. c # h = p @ n @ s"
    then obtain p s where ps: "c # h = p @ n @ s" by blast
    show "contains n (c # h)"
    proof (cases p)
      case Nil
      with ps have "starts_with n (c # h)" by (auto simp: starts_with_iff)
      then show ?thesis by simp
    next
      case (Cons d p')
      with ps have "h = p' @ n @ s" by simp
      then have "contains n h" using Cons.IH by blast
      then show ?thesis by simp
    qed
  qed
qed

lemma severity_index_le: "severity_index x \<le> 2"
  by (cases x) auto

lemma severity_index_top: "(2 \<le> severity_index x) = (x = CRITICAL)"
  by (cases x) auto

lemma severity_loop_critical:
  "m = CRITICAL \<or> (\<exists>d \<in> set ds. deviation_type d = CRITICAL) \<Longrightarrow> severity_loop ds m = CRITICAL"
proof (induction ds arbitrary: m)
  case Nil
  then show ?case by simp
next
  case (Cons d ds)
  let ?m = "if severity_index (deviation_type d) > severity_index m then deviation_type d else m"
  have "?m = CRITICAL \<or> (\<exists>d \<in> set ds. deviation_type d = CRITICAL)"
  proof (cases "m = CRITICAL")
    case True
    then show ?thesis using severity_index_le [of "deviation_type d"] by simp
  next
    case False
    show ?thesis
    proof (cases "deviation_type d = CRITICAL")
      case True
      with False have "severity_index m < severity_index (deviation_type d)"
        using severity_index_top [of m] by simp
      with True show ?thesis by simp
    next
      case False
      with \<open>m \<noteq> CRITICAL\<close> Cons.prems show ?thesis by auto
    qed
  qed
  then have "severity_loop ds ?m = CRITICAL" by (rule Cons.IH)
  then show ?case by simp
qed

lemma error_indicators_nonempty: "[] \<notin> set error_indicators"
  by (simp add: error_indicators_def)

text \<open>
  Claim C3, amended. For every plan step whose expected-outcome text is not empty and
  every actual-operation text: if the actual-outcome text contains, ignoring case, one of
  the error-indicator keywords, then \<open>detect\<close> returns a report with severity
  critical, whatever the operation similarity and whatever the non-empty expected-outcome
  text says.
\<close>

theorem error_outcome_is_critical:
  assumes expected: "expected_outcome step \<noteq> []"
      and indicator: "indicator \<in> set error_indicators"
      and occurs: "lower actual_outcome = before @ indicator @ after"
    shows "severity (detect step actual_operation actual_outcome) = CRITICAL \<and>
           has_deviation (detect step actual_operation actual_outcome)"
proof -
  have "indicator \<noteq> []" using indicator error_indicators_nonempty by auto
  with occurs have actual: "actual_outcome \<noteq> []" by (auto simp: lower_def)
  have "contains indicator (lower actual_outcome)"
    using occurs contains_iff by blast
  with indicator have "any_keyword_in error_indicators (lower actual_outcome)"
    by (auto simp: any_keyword_in_def list_ex_iff)
  with expected actual obtain f where
    f: "check_outcome_deviation (expected_outcome step) actual_outcome = Some f"
       "deviation_type f = CRITICAL"
    by (simp add: check_outcome_deviation_def Let_def)
  define ds where "ds = option_to_list (check_operation_deviation (step_operation step) actual_operation) @ [f]"
  have "ds \<noteq> []" "\<exists>d \<in> set ds. deviation_type d = CRITICAL"
    using f by (auto simp: ds_def)
  then have "calculate_severity ds = CRITICAL"
    by (simp add: calculate_severity_def severity_loop_critical)
  moreover have "severity (detect step actual_operation actual_outcome) = calculate_severity ds"
    by (simp add: detect_def Let_def ds_def f option_to_list_def)
  moreover have "has_deviation (detect step actual_operation actual_outcome)"
    by (simp add: detect_def Let_def f option_to_list_def)
  ultimately show ?thesis by simp
qed

lemma lower_denied: "lower ''Permission DENIED for user'' = ''permission '' @ ''denied'' @ '' for user''"
  by code_simp

text \<open>Witness for C3: an outcome reporting a denied permission, with the planned
  operation executed exactly.\<close>

theorem error_outcome_is_critical_witness:
  "expected_outcome (example_step ''s1'' 1 STEP_EXECUTING None) \<noteq> [] \<and>
   ''denied'' \<in> set error_indicators \<and>
   lower ''Permission DENIED for user'' = ''permission '' @ ''denied'' @ '' for user'' \<and>
   severity (detect (example_step ''s1'' 1 STEP_EXECUTING None) ''pg_dump -t user_sessions''
              ''Permission DENIED for user'') = CRITICAL"
proof -
  have a: "expected_outcome (example_step ''s1'' 1 STEP_EXECUTING None) \<noteq> []"
    by (simp add: example_step_def)
  have b: "''denied'' \<in> set error_indicators"
    by (simp add: error_indicators_def)
  show ?thesis
    using error_outcome_is_critical [OF a b lower_denied] a b lower_denied by blast
qed

text \<open>
  Claim C3, as stated, fails: \<open>_check_outcome_deviation\<close> returns no finding when the
  expected-outcome text is empty (the default of \<open>create_plan\<close>), so an outcome
  containing \<open>error\<close> is not reported as critical for such a step.
\<close>

theorem error_outcome_without_expectation:
  "contains ''error'' (lower ''Error: disk full'') \<and>
   severity (detect ((example_step ''s1'' 1 STEP_EXECUTING None)\<lparr>expected_outcome := []\<rparr>)
              ''pg_dump -t user_sessions'' ''Error: disk full'') \<noteq> CRITICAL"
  by code_simp

text \<open>
  In general: for a step with an empty expected-outcome text the outcome check yields no
  finding, and the report holds the finding of the operation check alone.
\<close>

lemma outcome_check_skipped:
  "check_outcome_deviation [] actual_outcome = None"
  "expected_outcome step = [] \<Longrightarrow>
     deviations (detect step actual_operation actual_outcome) =
       option_to_list (check_operation_deviation (step_operation step) actual_operation)"
  by (simp_all add: check_outcome_deviation_def detect_def Let_def option_to_list_def)

section \<open>Properties of the plan controller\<close>

text \<open>The two loops of \<open>abort_plan\<close> and its two counting sums, as list comprehensions.\<close>

lemma collect_rollback_eq:
  "collect_rollback ss acc =
     acc @ map suggestion_of
             (filter (\<lambda>st. step_status st = STEP_COMPLETED \<and> truthy (rollback_action st)) ss)"
  by (induction ss arbitrary: acc) auto

lemma skip_remaining_eq:
  "skip_remaining ss =
     map (\<lambda>st. if step_status st = STEP_PENDING \<or> step_status st = STEP_APPROVED
               then st\<lparr>step_status := STEP_SKIPPED\<rparr> else st) ss"
  by (induction ss) auto

lemma count_status_eq: "count_status st ss = length (filter (\<lambda>s. step_status s = st) ss)"
  by (induction ss) auto

lemma truthy_iff: "truthy x = (x \<noteq> None \<and> x \<noteq> Some [])"
  by (cases x) (auto simp: truthy_def)

lemma completed_count_skip_remaining:
  "length (filter (\<lambda>s. step_status s = STEP_COMPLETED) (skip_remaining ss)) =
   length (filter (\<lambda>s. step_status s = STEP_COMPLETED) ss)"
  by (induction ss) auto

text \<open>
  Claim C5. For every stored plan, \<open>abort_plan\<close> returns a result; its rollback
  suggestions are those of exactly the steps whose status is completed and whose
  \<open>rollback_action\<close> is neither \<open>None\<close> nor the empty string, in the reverse of the original
  step order, each carrying the id, order, description and rollback action of its step;
  every step that was pending or approved becomes skipped and every other step is left as
  it was; the plan becomes aborted with \<open>completed_at\<close> set to the current time; the
  returned counts are the numbers of completed and of skipped steps of the updated plan (the
  number of completed steps is that of the plan before the call). No other plan of the
  session changes.
\<close>

theorem abort_plan_result:
  assumes stored: "plans s pid = Some plan"
  shows "\<exists>s' r plan'.
           abort_plan s pid reason now = (s', Some r) \<and>
           plans s' pid = Some plan' \<and>
           (\<forall>other. other \<noteq> pid \<longrightarrow> plans s' other = plans s other) \<and>
           map suggestion_step_id (rollback_suggestions r) =
             rev (map step_id
                    (filter (\<lambda>st. step_status st = STEP_COMPLETED \<and>
                                  rollback_action st \<noteq> None \<and> rollback_action st \<noteq> Some [])
                            (steps plan))) \<and>
           map (\<lambda>sg. Some (suggestion_rollback_action sg)) (rollback_suggestions r) =
             rev (map rollback_action
                    (filter (\<lambda>st. step_status st = STEP_COMPLETED \<and>
                                  rollback_action st \<noteq> None \<and> rollback_action st \<noteq> Some [])
                            (steps plan))) \<and>
           map suggestion_step_order (rollback_suggestions r) =
             rev (map step_order
                    (filter (\<lambda>st. step_status st = STEP_COMPLETED \<and>
                                  rollback_action st \<noteq> None \<and> rollback_action st \<noteq> Some [])
                            (steps plan))) \<and>
           map suggestion_step_description (rollback_suggestions r) =
             rev (map step_description
                    (filter (\<lambda>st. step_status st = STEP_COMPLETED \<and>
                                  rollback_action st \<noteq> None \<and> rollback_action st \<noteq> Some [])
                            (steps plan))) \<and>
           abort_plan_id r = pid \<and> abort_reason r = reason \<and>
           steps plan' =
             map (\<lambda>st. if step_status st = STEP_PENDING \<or> step_status st = STEP_APPROVED
                       then st\<lparr>step_status := STEP_SKIPPED\<rparr> else st) (steps plan) \<and>
           plan_status plan' = ABORTED \<and>
           completed_at plan' = Some now \<and>
           completed_steps r = length (filter (\<lambda>st. step_status st = STEP_COMPLETED) (steps plan')) \<and>
           completed_steps r = length (filter (\<lambda>st. step_status st = STEP_COMPLETED) (steps plan)) \<and>
           skipped_steps r = length (filter (\<lambda>st. step_status st = STEP_SKIPPED) (steps plan'))"
proof -
  let ?chosen = "filter (\<lambda>st. step_status st = STEP_COMPLETED \<and>
                               rollback_action st \<noteq> None \<and> rollback_action st \<noteq> Some [])
                        (steps plan)"
  have actions: "map (\<lambda>st. Some (suggestion_rollback_action (suggestion_of st))) ?chosen =
                 map rollback_action ?chosen"
    by (rule map_cong) (auto simp: suggestion_of_def get_or_def)
  have fields:
    "map suggestion_step_id (rev (map suggestion_of ?chosen)) = rev (map step_id ?chosen)"
    "map (\<lambda>sg. Some (suggestion_rollback_action sg)) (rev (map suggestion_of ?chosen)) =
       rev (map rollback_action ?chosen)"
    "map suggestion_step_order (rev (map suggestion_of ?chosen)) = rev (map step_order ?chosen)"
    "map suggestion_step_description (rev (map suggestion_of ?chosen)) =
       rev (map step_description ?chosen)"
    using actions by (simp_all add: rev_map comp_def suggestion_of_def)
  have result: "abort_plan s pid reason now =
      (put_plan s pid (plan\<lparr> steps := skip_remaining (steps plan), plan_status := ABORTED,
                              updated_at := now, completed_at := Some now \<rparr>),
       Some \<lparr> abort_plan_id = pid, abort_reason = reason,
              rollback_suggestions = rev (map suggestion_of ?chosen),
              completed_steps = count_status STEP_COMPLETED (skip_remaining (steps plan)),
              skipped_steps = count_status STEP_SKIPPED (skip_remaining (steps plan)) \<rparr>)"
    using stored
    by (simp add: abort_plan_def get_plan_def Let_def collect_rollback_eq truthy_iff)
  show ?thesis
    unfolding result
    using fields
    by (simp add: put_plan_def count_status_eq completed_count_skip_remaining)
       (simp add: skip_remaining_eq)
qed

lemma partly_done_stored: "plans (example_session partly_done_plan) ''p1'' = Some partly_done_plan"
  by (simp add: example_session_def store_plan_def partly_done_plan_def example_plan_def)

text \<open>
  A plan with two completed steps that can be rolled back (S1 and S3), a completed step
  without a rollback (S2), an approved step (S4) and a pending one (S5): the suggestions are
  those of S3 and S1, in that order.
\<close>

theorem abort_plan_result_witness:
  "plans (example_session partly_done_plan) ''p1'' = Some partly_done_plan \<and>
   (case abort_plan (example_session partly_done_plan) ''p1'' None 9 of
      (s', None) \<Rightarrow> False
    | (s', Some r) \<Rightarrow>
        map suggestion_step_id (rollback_suggestions r) = [''s3'', ''s1''] \<and>
        map suggestion_rollback_action (rollback_suggestions r) = [''undo3'', ''undo1''] \<and>
        map suggestion_step_order (rollback_suggestions r) = [3, 1] \<and>
        map_option (\<lambda>p. map step_status (steps p)) (plans s' ''p1'') =
          Some [STEP_COMPLETED, STEP_COMPLETED, STEP_COMPLETED, STEP_SKIPPED, STEP_SKIPPED] \<and>
        map_option plan_status (plans s' ''p1'') = Some ABORTED \<and>
        map_option completed_at (plans s' ''p1'') = Some (Some 9) \<and>
        completed_steps r = 3 \<and> skipped_steps r = 2)"
proof -
  from abort_plan_result [OF partly_done_stored, of None 9]
  obtain s' r plan' where r:
    "abort_plan (example_session partly_done_plan) ''p1'' None 9 = (s', Some r)"
    "plans s' ''p1'' = Some plan'"
    "map suggestion_step_id (rollback_suggestions r) =
       rev (map step_id
              (filter (\<lambda>st. step_status st = STEP_COMPLETED \<and>
                            rollback_action st \<noteq> None \<and> rollback_action st \<noteq> Some [])
                      (steps partly_done_plan)))"
    "map (\<lambda>sg. Some (suggestion_rollback_action sg)) (rollback_suggestions r) =
       rev (map rollback_action
              (filter (\<lambda>st. step_status st = STEP_COMPLETED \<and>
                            rollback_action st \<noteq> None \<and> rollback_action st \<noteq> Some [])
                      (steps partly_done_plan)))"
    "map suggestion_step_order (rollback_suggestions r) =
       rev (map step_order
              (filter (\<lambda>st. step_status st = STEP_COMPLETED \<and>
                            rollback_action st \<noteq> None \<and> rollback_action st \<noteq> Some [])
                      (steps partly_done_plan)))"
    "steps plan' =
       map (\<lambda>st. if step_status st = STEP_PENDING \<or> step_status st = STEP_APPROVED
                 then st\<lparr>step_status := STEP_SKIPPED\<rparr> else st) (steps partly_done_plan)"
    "plan_status plan' = ABORTED" "completed_at plan' = Some 9"
    "completed_steps r = length (filter (\<lambda>st. step_status st = STEP_COMPLETED) (steps plan'))"
    "skipped_steps r = length (filter (\<lambda>st. step_status st = STEP_SKIPPED) (steps plan'))"
    by blast
  have ids: "map suggestion_step_id (rollback_suggestions r) = [''s3'', ''s1'']"
    and orders: "map suggestion_step_order (rollback_suggestions r) = [3, 1]"
    and statuses: "map step_status (steps plan') =
                     [STEP_COMPLETED, STEP_COMPLETED, STEP_COMPLETED, STEP_SKIPPED, STEP_SKIPPED]"
    and counts: "completed_steps r = 3" "skipped_steps r = 2"
    using r(3,5,6,9,10)
    by (simp_all add: partly_done_plan_def example_plan_def example_step_def)
  have "map (\<lambda>sg. Some (suggestion_rollback_action sg)) (rollback_suggestions r) =
          map Some [''undo3'', ''undo1'']"
    using r(4) by (simp add: partly_done_plan_def example_plan_def example_step_def)
  then have "map Some (map suggestion_rollback_action (rollback_suggestions r)) =
             map Some [''undo3'', ''undo1'']"
    by (simp add: comp_def)
  then have actions: "map suggestion_rollback_action (rollback_suggestions r) = [''undo3'', ''undo1'']"
    by (rule map_injective) (simp add: inj_on_def)
  from ids orders statuses counts actions r(1,2,7,8) partly_done_stored show ?thesis by simp
qed

text \<open>
  \<open>update_step_status\<close> updates the first step of the list that carries the given id.
\<close>

lemma update_first_at:
  "i < length ss \<Longrightarrow> step_id (ss ! i) = sid \<Longrightarrow> \<forall>j<i. step_id (ss ! j) \<noteq> sid \<Longrightarrow>
   update_first sid f ss = Some (ss[i := f (ss ! i)], f (ss ! i))"
proof (induction ss arbitrary: i)
  case Nil
  then show ?case by simp
next
  case (Cons x xs)
  show ?case
  proof (cases i)
    case 0
    with Cons.prems show ?thesis by simp
  next
    case (Suc k)
    with Cons.prems have "step_id x \<noteq> sid" by auto
    moreover have "update_first sid f xs = Some (xs[k := f (xs ! k)], f (xs ! k))"
    proof (rule Cons.IH)
      show "k < length xs" using Cons.prems Suc by simp
      show "step_id (xs ! k) = sid" using Cons.prems Suc by simp
      show "\<forall>j<k. step_id (xs ! j) \<noteq> sid"
      proof (intro allI impI)
        fix j assume "j < k"
        then have "Suc j < i" using Suc by simp
        with Cons.prems(3) have "step_id ((x # xs) ! Suc j) \<noteq> sid" by blast
        then show "step_id (xs ! j) \<noteq> sid" by simp
      qed
    qed
    ultimately show ?thesis using Suc by simp
  qed
qed

text \<open>
  Claim C6. For every stored plan and every step of it that \<open>step_id\<close> designates (the first
  step of the list carrying that id), whatever the statuses of the plan and of its steps,
  \<open>fail_step\<close> returns that step with status failed and the given error text, and the stored plan
  has status failed; all other steps are unchanged, so the plan fails even if they are all
  still pending.
\<close>

theorem fail_step_fails_plan:
  assumes stored: "plans s pid = Some plan"
      and index: "i < length (steps plan)"
      and ident: "step_id (steps plan ! i) = sid"
      and first: "\<forall>j<i. step_id (steps plan ! j) \<noteq> sid"
  shows "\<exists>s' plan'.
           fail_step s pid sid err now = (s', Some (steps plan' ! i)) \<and>
           plans s' pid = Some plan' \<and>
           plan_status plan' = PLAN_FAILED \<and>
           steps plan' =
             (steps plan)[i := (steps plan ! i)\<lparr> step_status := STEP_FAILED, step_result := None,
                                                  step_error := Some err, executed_at := Some now \<rparr>] \<and>
           step_status (steps plan' ! i) = STEP_FAILED \<and>
           step_error (steps plan' ! i) = Some err \<and>
           (\<forall>j<length (steps plan). j \<noteq> i \<longrightarrow> steps plan' ! j = steps plan ! j)"
  using stored index
  by (simp add: fail_step_def get_plan_def update_step_status_def put_plan_def
        update_first_at [OF index ident first] set_step_def)

lemma pending_stored: "plans (example_session pending_plan) ''p1'' = Some pending_plan"
  by (simp add: example_session_def store_plan_def pending_plan_def example_plan_def)

text \<open>A plan of three pending steps: failing the second one fails the plan.\<close>

theorem fail_step_fails_plan_witness:
  "plans (example_session pending_plan) ''p1'' = Some pending_plan \<and>
   1 < length (steps pending_plan) \<and>
   step_id (steps pending_plan ! 1) = ''s2'' \<and>
   step_id (steps pending_plan ! 0) \<noteq> ''s2'' \<and>
   (case fail_step (example_session pending_plan) ''p1'' ''s2'' ''boom'' 7 of
      (s', None) \<Rightarrow> False
    | (s', Some step) \<Rightarrow>
        step_status step = STEP_FAILED \<and> step_error step = Some ''boom'' \<and>
        map_option plan_status (plans s' ''p1'') = Some PLAN_FAILED \<and>
        map_option (\<lambda>p. map step_status (steps p)) (plans s' ''p1'') =
          Some [STEP_PENDING, STEP_FAILED, STEP_PENDING])"
proof -
  have b: "1 < length (steps pending_plan)"
    by (simp add: pending_plan_def example_plan_def)
  have c: "step_id (steps pending_plan ! 1) = ''s2''"
    by (simp add: pending_plan_def example_plan_def example_step_def)
  have d: "\<forall>j<1. step_id (steps pending_plan ! j) \<noteq> ''s2''"
    by (simp add: pending_plan_def example_plan_def example_step_def)
  from fail_step_fails_plan [OF pending_stored b c d, of "''boom''" 7]
  obtain s' plan' where r:
    "fail_step (example_session pending_plan) ''p1'' ''s2'' ''boom'' 7 = (s', Some (steps plan' ! 1))"
    "plans s' ''p1'' = Some plan'"
    "plan_status plan' = PLAN_FAILED"
    "steps plan' =
       (steps pending_plan)[1 := (steps pending_plan ! 1)\<lparr> step_status := STEP_FAILED,
          step_result := None, step_error := Some ''boom'', executed_at := Some 7 \<rparr>]"
    "step_status (steps plan' ! 1) = STEP_FAILED"
    "step_error (steps plan' ! 1) = Some ''boom''"
    by blast
  have "map step_status (steps plan') = [STEP_PENDING, STEP_FAILED, STEP_PENDING]"
    using r(4) by (simp add: pending_plan_def example_plan_def example_step_def)
  moreover have "step_id (steps pending_plan ! 0) \<noteq> ''s2''"
    by (simp add: pending_plan_def example_plan_def example_step_def)
  ultimately show ?thesis using r(1,2,3,5,6) b c pending_stored by simp
qed

text \<open>
  Claim C10. \<open>approve_plan\<close> checks no precondition on the plan status: for every stored plan,
  whatever its status and the statuses of its steps, it stores and returns a positive approval
  of target type \<open>plan\<close>, sets the plan status to in-progress and overwrites the status of
  every step with approved. The completion timestamp is left as it was.
\<close>

theorem approve_plan_unconditional:
  assumes stored: "plans s pid = Some plan"
  shows "\<exists>s' plan' a.
           approve_plan s pid reason new_id now = (s', Some (plan', a)) \<and>
           plans s' pid = Some plan' \<and>
           approvals s' new_id = Some a \<and>
           approved a \<and> target_type a = ''plan'' \<and> target_id a = pid \<and>
           plan_status plan' = IN_PROGRESS \<and>
           completed_at plan' = completed_at plan \<and>
           steps plan' = map (\<lambda>st. st\<lparr>step_status := STEP_APPROVED\<rparr>) (steps plan) \<and>
           (\<forall>st \<in> set (steps plan'). step_status st = STEP_APPROVED)"
  using stored
  by (simp add: approve_plan_def get_plan_def put_plan_def store_approval_def new_approval_def
        Let_def comp_def)

lemma finished_stored: "plans (example_session finished_plan) ''p1'' = Some finished_plan"
  by (simp add: example_session_def store_plan_def finished_plan_def example_plan_def)

text \<open>
  A plan that is already completed, with one completed and one skipped step, is put back in
  progress with both steps approved.
\<close>

theorem approve_plan_unconditional_witness:
  "plans (example_session finished_plan) ''p1'' = Some finished_plan \<and>
   plan_status finished_plan = PLAN_COMPLETED \<and>
   map step_status (steps finished_plan) = [STEP_COMPLETED, STEP_SKIPPED] \<and>
   (case approve_plan (example_session finished_plan) ''p1'' None ''ap1'' 8 of
      (s', None) \<Rightarrow> False
    | (s', Some (plan', a)) \<Rightarrow>
        approved a \<and>
        plan_status plan' = IN_PROGRESS \<and>
        map step_id (steps plan') = [''s1'', ''s2''] \<and>
        map step_status (steps plan') = [STEP_APPROVED, STEP_APPROVED])"
proof -
  from approve_plan_unconditional [OF finished_stored, of None "''ap1''" 8]
  obtain s' plan' a where r:
    "approve_plan (example_session finished_plan) ''p1'' None ''ap1'' 8 = (s', Some (plan', a))"
    "approved a" "plan_status plan' = IN_PROGRESS"
    "steps plan' = map (\<lambda>st. st\<lparr>step_status := STEP_APPROVED\<rparr>) (steps finished_plan)"
    by blast
  have "map step_id (steps plan') = [''s1'', ''s2'']"
       "map step_status (steps plan') = [STEP_APPROVED, STEP_APPROVED]"
       "plan_status finished_plan = PLAN_COMPLETED"
       "map step_status (steps finished_plan) = [STEP_COMPLETED, STEP_SKIPPED]"
    using r(4) by (simp_all add: finished_plan_def example_plan_def example_step_def)
  with r(1,2,3) finished_stored show ?thesis by simp
qed

text \<open>
  The status and the completion timestamp of a stored plan under each controller operation,
  whichever plan the operation is called on.
\<close>

lemma assess_id: "assessment_id (assess new_id now operation description context) = new_id"
  by (simp add: assess_def Let_def split: prod.splits)

















lemmas controller_defs =
  run_calls_def fresh_session_def create_plan_def store_plan_def empty_session_def assess_id
  submit_for_approval_def approve_plan_def deny_plan_def complete_step_def fail_step_def
  abort_plan_def update_step_status_def set_step_def get_plan_def put_plan_def store_approval_def
  new_approval_def all_completed_def get_or_def Let_def




text \<open>
  \<open>fail_step\<close> sets the status failed and \<open>updated_at\<close> only, where
  \<open>SessionManager.update_plan_status\<close> stamps \<open>completed_at\<close> for the failed status too: a
  plan failed by \<open>fail_step\<close> keeps the completion timestamp it had.
\<close>

lemma failed_plan_without_completion_time:
  "map_option plan_status
     (plans (run_calls fresh_session [(FailStep ''p1'' ''s1'' ''boom'', 2)]) ''p1'')
     = Some PLAN_FAILED \<and>
   map_option completed_at
     (plans (run_calls fresh_session [(FailStep ''p1'' ''s1'' ''boom'', 2)]) ''p1'')
     = Some None"
  by (simp add: controller_defs)

section \<open>Properties of the audit log\<close>

text \<open>The chain of optional filters keeps the entries that satisfy all the criteria given.\<close>

lemma filter_if_given_eq:
  "filter_if_given x p entries =
     filter (\<lambda>e. case x of None \<Rightarrow> True | Some v \<Rightarrow> p v e) entries"
  by (cases x) (simp_all add: filter_if_given_def)

lemma filter_chain:
  "(let entries = audit_log;
        entries = filter_if_given (q_risk_level q) (\<lambda>v e. entry_risk_level e = v) entries;
        entries = filter_if_given (q_action q) (\<lambda>v e. entry_action e = v) entries;
        entries = filter_if_given (q_since q) (\<lambda>v e. entry_timestamp e \<ge> v) entries;
        entries = filter_if_given (q_until q) (\<lambda>v e. entry_timestamp e \<le> v) entries;
        entries = filter_if_given (q_assessment_id q) (\<lambda>v e. entry_assessment_id e = Some v) entries;
        entries = filter_if_given (q_plan_id q) (\<lambda>v e. entry_plan_id e = Some v) entries;
        entries = (if q_success_only q then filter (\<lambda>e. entry_success e) entries else entries);
        entries = (if q_failures_only q then filter (\<lambda>e. \<not> entry_success e) entries else entries)
    in entries) = filter (satisfies q) audit_log"
proof -
  have a: "(if b then filter P xs else xs) = filter (\<lambda>e. if b then P e else True) xs" for b P and xs :: "AuditEntry list"
    by simp
  show ?thesis
    unfolding Let_def filter_if_given_eq a filter_filter satisfies_def
    by (rule filter_cong) auto
qed

text \<open>
  \<open>sort(key=..., reverse=True)\<close> is the stable sort by descending timestamp: entries with
  equal timestamps keep the order in which they were logged.
\<close>

lemma sorted_descending:
  "sorted (map key xs) \<Longrightarrow> sorted (map (\<lambda>e. - int (key e)) (rev xs))"
  by (induction xs) (auto simp: sorted_append)

lemma sort_reverse_eq:
  "sort_reverse key xs = sort_key (\<lambda>e. - int (key e)) xs"
proof -
  let ?ys = "rev (sort_key key (rev xs))"
  have same: "mset ?ys = mset xs" by simp
  have stable: "filter (\<lambda>x. - int (key k) = - int (key x)) ?ys =
                filter (\<lambda>x. - int (key k) = - int (key x)) xs" for k
  proof -
    have "filter (\<lambda>x. key x = key k) (sort_key key (rev xs)) = filter (\<lambda>x. key x = key k) (rev xs)"
      by (rule sort_key_stable)
    then have "rev (filter (\<lambda>x. key x = key k) (sort_key key (rev xs))) = filter (\<lambda>x. key x = key k) xs"
      by (simp add: rev_filter)
    moreover have "(\<lambda>x. - int (key k) = - int (key x)) = (\<lambda>x. key x = key k)"
      by auto
    ultimately show ?thesis by (simp add: rev_filter)
  qed
  have ordered: "sorted (map (\<lambda>e. - int (key e)) ?ys)"
    by (rule sorted_descending) simp
  have "sort_key (\<lambda>e. - int (key e)) xs = ?ys"
    using same stable ordered by (rule properties_for_sort_key)
  then show ?thesis by (simp add: sort_reverse_def)
qed

lemma slice_from_offset:
  "(if offset > 0 then slice_from offset xs else xs) = drop (nat offset) xs"
  by (simp add: slice_from_def)

lemma slice_to_limit: "0 \<le> l \<Longrightarrow> slice_to l xs = take (nat l) xs"
  by (simp add: slice_to_def)

text \<open>
  Claim C9, amended. For every sequence of logged audit entries, every combination of
  filters and every offset, and for every limit that is absent or not negative,
  \<open>get_entries\<close> equals: filter the entries by the criteria given, sort by timestamp
  descending (most recent first, stably), drop the first \<open>offset\<close> entries (none for an
  offset of zero or less), then take the first \<open>limit\<close> entries. Pagination comes after
  filtering and sorting and never reorders: the result is in descending order of timestamp.
\<close>

theorem get_entries_paginates_after_sorting:
  assumes limit: "q_limit q = None \<or> (\<exists>l. q_limit q = Some l \<and> 0 \<le> l)"
  shows "get_entries audit_log q = get_entries_spec audit_log q \<and>
         get_entries audit_log q =
           (let page = drop (nat (q_offset q))
                         (sort_key (\<lambda>e. - int (entry_timestamp e)) (filter (satisfies q) audit_log))
            in case q_limit q of None \<Rightarrow> page | Some l \<Rightarrow> take (nat l) page) \<and>
         sorted (map (\<lambda>e. - int (entry_timestamp e)) (get_entries audit_log q))"
proof -
  have chain:
    "(if q_failures_only q
      then filter (\<lambda>e. \<not> entry_success e)
        (if q_success_only q
         then filter (\<lambda>e. entry_success e)
           (filter_if_given (q_plan_id q) (\<lambda>v e. entry_plan_id e = Some v)
           (filter_if_given (q_assessment_id q) (\<lambda>v e. entry_assessment_id e = Some v)
           (filter_if_given (q_until q) (\<lambda>v e. entry_timestamp e \<le> v)
           (filter_if_given (q_since q) (\<lambda>v e. entry_timestamp e \<ge> v)
           (filter_if_given (q_action q) (\<lambda>v e. entry_action e = v)
           (filter_if_given (q_risk_level q) (\<lambda>v e. entry_risk_level e = v) audit_log))))))
         else
           (filter_if_given (q_plan_id q) (\<lambda>v e. entry_plan_id e = Some v)
           (filter_if_given (q_assessment_id q) (\<lambda>v e. entry_assessment_id e = Some v)
           (filter_if_given (q_until q) (\<lambda>v e. entry_timestamp e \<le> v)
           (filter_if_given (q_since q) (\<lambda>v e. entry_timestamp e \<ge> v)
           (filter_if_given (q_action q) (\<lambda>v e. entry_action e = v)
           (filter_if_given (q_risk_level q) (\<lambda>v e. entry_risk_level e = v) audit_log)))))))
      else
        (if q_success_only q
         then filter (\<lambda>e. entry_success e)
           (filter_if_given (q_plan_id q) (\<lambda>v e. entry_plan_id e = Some v)
           (filter_if_given (q_assessment_id q) (\<lambda>v e. entry_assessment_id e = Some v)
           (filter_if_given (q_until q) (\<lambda>v e. entry_timestamp e \<le> v)
           (filter_if_given (q_since q) (\<lambda>v e. entry_timestamp e \<ge> v)
           (filter_if_given (q_action q) (\<lambda>v e. entry_action e = v)
           (filter_if_given (q_risk_level q) (\<lambda>v e. entry_risk_level e = v) audit_log))))))
         else
           (filter_if_given (q_plan_id q) (\<lambda>v e. entry_plan_id e = Some v)
           (filter_if_given (q_assessment_id q) (\<lambda>v e. entry_assessment_id e = Some v)
           (filter_if_given (q_until q) (\<lambda>v e. entry_timestamp e \<le> v)
           (filter_if_given (q_since q) (\<lambda>v e. entry_timestamp e \<ge> v)
           (filter_if_given (q_action q) (\<lambda>v e. entry_action e = v)
           (filter_if_given (q_risk_level q) (\<lambda>v e. entry_risk_level e = v) audit_log))))))))
     = filter (satisfies q) audit_log"
    using filter_chain [of audit_log q] unfolding Let_def .
  have code: "get_entries audit_log q =
      (case q_limit q of
         None \<Rightarrow> drop (nat (q_offset q))
                   (sort_key (\<lambda>e. - int (entry_timestamp e)) (filter (satisfies q) audit_log))
       | Some l \<Rightarrow> slice_to l (drop (nat (q_offset q))
                   (sort_key (\<lambda>e. - int (entry_timestamp e)) (filter (satisfies q) audit_log))))"
    unfolding get_entries_def Let_def chain slice_from_offset sort_reverse_eq ..
  have eq: "get_entries audit_log q = get_entries_spec audit_log q"
    using limit by (auto simp: code get_entries_spec_def Let_def slice_to_limit)
  have "sorted (map (\<lambda>e. - int (entry_timestamp e)) (get_entries_spec audit_log q))"
    by (auto simp: get_entries_spec_def Let_def sorted_wrt_drop sorted_wrt_take
             simp flip: drop_map take_map split: option.splits)
  with eq show ?thesis by (simp add: get_entries_spec_def Let_def)
qed

text \<open>Witness for C9: three entries logged out of order, offset 1 and limit 1.\<close>

theorem get_entries_paginates_after_sorting_witness:
  "q_limit (example_query (Some 1) 1) = Some 1 \<and>
   get_entries [example_entry ''e1'' 1, example_entry ''e2'' 3, example_entry ''e3'' 2]
     (example_query (Some 1) 1) = [example_entry ''e3'' 2] \<and>
   get_entries_spec [example_entry ''e1'' 1, example_entry ''e2'' 3, example_entry ''e3'' 2]
     (example_query (Some 1) 1) = [example_entry ''e3'' 2]"
proof -
  have a: "q_limit (example_query (Some 1) 1) = None \<or>
           (\<exists>l. q_limit (example_query (Some 1) 1) = Some l \<and> 0 \<le> l)"
    by (simp add: example_query_def)
  have b: "get_entries_spec [example_entry ''e1'' 1, example_entry ''e2'' 3, example_entry ''e3'' 2]
     (example_query (Some 1) 1) = [example_entry ''e3'' 2]"
    by (simp add: get_entries_spec_def satisfies_def example_query_def example_entry_def Let_def)
  from get_entries_paginates_after_sorting [OF a] b show ?thesis
    by (simp add: example_query_def)
qed

text \<open>A negative limit is a slice that ends before the last entries of the page.\<close>

lemma negative_limit_slice:
  assumes "l < 0"
  shows "slice_to l xs = take (length xs - nat (- l)) xs"
proof -
  have "nat (int (length xs) + l) = length xs - nat (- l)"
    using assms by linarith
  with assms show ?thesis by (simp add: slice_to_def)
qed

text \<open>
  Claim C9, as stated, fails for a negative limit, which \<open>tools/history.py\<close> passes on
  unchecked: the slice \<open>entries[:limit]\<close> then drops entries from the end of the page, so
  with limit \<open>-1\<close> and two entries the most recent one is returned, where taking the first
  \<open>limit\<close> entries gives none.
\<close>

theorem negative_limit_drops_from_the_end:
  "get_entries [example_entry ''e1'' 1, example_entry ''e2'' 2] (example_query (Some (- 1)) 0)
     = [example_entry ''e2'' 2] \<and>
   get_entries_spec [example_entry ''e1'' 1, example_entry ''e2'' 2] (example_query (Some (- 1)) 0)
     = []"
  by (simp add: get_entries_def get_entries_spec_def filter_if_given_def sort_reverse_def
        slice_to_def slice_from_def satisfies_def example_query_def example_entry_def Let_def)

end
